theory Spec2Isabelle
  imports Main "HOL-Library.Char_ord" "HOL-Library.List_Lexorder"
begin

section \<open>Strings\<close>

text \<open>
  Seat identifiers, messages and codes are JavaScript strings. They are modelled as
  \<^typ>\<open>string\<close> restricted to ASCII: \<open>trim\<close> strips the ASCII white space and line
  terminators (TAB, LF, VT, FF, CR, SPACE) from both ends and \<open>toUpperCase\<close> maps
  \<open>a\<close>..\<open>z\<close> to \<open>A\<close>..\<open>Z\<close> and keeps every other character, which is what the
  JavaScript methods do on ASCII input.
\<close>

definition isWhiteSpace :: "char \<Rightarrow> bool" where
  "isWhiteSpace c = (of_char c \<in> {9, 10, 11, 12, 13, 32 :: nat})"

definition toUpperCaseChar :: "char \<Rightarrow> char" where
  "toUpperCaseChar c =
     (let n = of_char c :: nat in if 97 \<le> n \<and> n \<le> 122 then char_of (n - 32) else c)"

definition toUpperCase :: "string \<Rightarrow> string" where
  "toUpperCase s = map toUpperCaseChar s"

definition trim :: "string \<Rightarrow> string" where
  "trim s = rev (dropWhile isWhiteSpace (rev (dropWhile isWhiteSpace s)))"

text \<open>
  \<open>String(n)\<close> and template interpolation of an integer-valued number: its decimal
  digits (the numbers interpolated here are seat limits, far below the magnitude at
  which JavaScript switches to exponent notation).
\<close>

definition digitChar :: "nat \<Rightarrow> char" where
  "digitChar d = ''0123456789'' ! d"

function showNat :: "nat \<Rightarrow> string" where
  "showNat n = (if n < 10 then [digitChar n] else showNat (n div 10) @ [digitChar (n mod 10)])"
  by pat_completeness auto
termination
  by (relation "measure id") auto

definition showInt :: "int \<Rightarrow> string" where
  "showInt i = (if i < 0 then CHR ''-'' # showNat (nat (- i)) else showNat (nat i))"

text \<open>
  \<open>Array.from(new Set(xs))\<close>: a JavaScript \<open>Set\<close> iterates in insertion order, so the
  first occurrence of every element is kept, in the order of the input.
\<close>

fun arrayFromSet :: "'a list \<Rightarrow> 'a list" where
  "arrayFromSet [] = []"
| "arrayFromSet (x # xs) = x # arrayFromSet (filter (\<lambda>y. y \<noteq> x) xs)"


section \<open>Data exchanged with the reservation service\<close>

text \<open>
  An absent (\<open>undefined\<close> or \<open>null\<close>) property is \<open>None\<close>. A property that the code
  tests with \<open>Array.isArray\<close> is \<open>None\<close> when it is not an array. An element of a seat
  list is \<open>None\<close> when it is \<open>null\<close> or \<open>undefined\<close> and otherwise \<open>Some\<close> of its
  \<open>String(...)\<close> conversion. Fields that the seat-selection code only passes through
  (seat class, booking time, price, flight details, bill, the raw record) are left out.
\<close>

type_synonym passenger = string

record seat =
  seat_id :: string
  seat_status :: string

record seat_row =
  row_seats :: "seat list"

record seat_section =
  section_rows :: "seat_row list"

record seat_map =
  sections :: "seat_section list option"
  availableSeats :: "int option"
  bookedSeats :: "int option"

record raw_reservation =
  reservation_id :: "string option"
  passenger_count :: "int option"
  raw_passengers :: "passenger list option"
  seat_assignments :: "string option list option"
  seat_assignments_updated_at :: "string option"

record raw_seat_selection =
  selected_seats :: "string option list option"
  raw_selectedSeats :: "string option list option"
  updated_at :: "string option"
  raw_updatedAt :: "string option"

record container =
  c_reservation :: "raw_reservation option"
  c_seat_selection :: "raw_seat_selection option"
  seat_map :: "seat_map option"
  c_seatMap :: "seat_map option"

text \<open>
  The response body. \<open>env_data\<close> is its \<open>data\<close> property; \<open>env_top\<close> holds the
  container properties of the body itself, which are read when \<open>data\<close> is absent.
\<close>

record envelope =
  ok :: bool
  env_message :: "string option"
  env_code :: "string option"
  env_data :: "container option"
  env_top :: container

text \<open>The normalized reservation, as the page reads it (\<open>?.\<close> and \<open>??\<close> on every level).\<close>

record seat_selection =
  ss_selectedSeats :: "string list option"
  ss_updatedAt :: "string option"

record reservation =
  res_reservationId :: "string option"
  passengerCount :: "int option"
  passengers :: "passenger list option"
  res_seatMap :: "seat_map option"
  seatSelection :: "seat_selection option"
  res_selectedSeats :: "string list option"

text \<open>A thrown error: its \<open>message\<close>, \<open>code\<close> and \<open>status\<close> properties.\<close>

record api_error =
  err_message :: "string option"
  err_code :: "string option"
  err_status :: "nat option"

record error_detail =
  detail_message :: "string option"
  detail_code :: "string option"

text \<open>
  What the HTTP client does with a request: it rejects with an error that carries no
  response (a transport failure), it rejects with an error response (status and the
  detail read from its body), or it resolves with a response body.
\<close>

datatype http_outcome =
    NoResponse api_error
  | ErrorResponse nat "error_detail option"
  | Response "envelope option"


section \<open>The reservation data gateway (apiClient.js)\<close>

text \<open>
  The seat-list pipeline that \<open>normalizeReservationPayload\<close> and
  \<open>updateReservationSeatSelection\<close> both apply: drop \<open>null\<close>/\<open>undefined\<close>, convert to
  string, trim, uppercase, drop empty strings, deduplicate. The conversion only meets
  entries that passed the first filter, so \<open>the\<close> is applied to \<open>Some\<close> values only.
\<close>

definition normalizeSeatList :: "string option list \<Rightarrow> string list" where
  "normalizeSeatList seats =
     arrayFromSet
       (filter (\<lambda>seat. seat \<noteq> [])
         (map (\<lambda>seat. toUpperCase (trim (the seat)))
           (filter (\<lambda>seat. seat \<noteq> None) seats)))"

definition emptyReservation :: raw_reservation where
  "emptyReservation =
     \<lparr>reservation_id = None, passenger_count = None, raw_passengers = None,
      seat_assignments = None, seat_assignments_updated_at = None\<rparr>"

definition emptySeatSelection :: raw_seat_selection where
  "emptySeatSelection =
     \<lparr>selected_seats = None, raw_selectedSeats = None, updated_at = None,
      raw_updatedAt = None\<rparr>"

definition orElse :: "'a option \<Rightarrow> 'a option \<Rightarrow> 'a option" where
  "orElse a b = (case a of Some x \<Rightarrow> Some x | None \<Rightarrow> b)"

text \<open>
  The first three bindings of \<open>normalizeReservationPayload\<close>:
  \<open>container = value?.data ?? value\<close>, \<open>reservation = container?.reservation ?? {}\<close>
  and \<open>seatSelectionRaw = container?.seat_selection ?? {}\<close>.
\<close>

definition payloadContainer :: "envelope \<Rightarrow> container" where
  "payloadContainer v = (case env_data v of Some d \<Rightarrow> d | None \<Rightarrow> env_top v)"

definition payloadReservation :: "envelope \<Rightarrow> raw_reservation" where
  "payloadReservation v =
     (case c_reservation (payloadContainer v) of Some r \<Rightarrow> r | None \<Rightarrow> emptyReservation)"

definition payloadSeatSelection :: "envelope \<Rightarrow> raw_seat_selection" where
  "payloadSeatSelection v =
     (case c_seat_selection (payloadContainer v) of Some q \<Rightarrow> q | None \<Rightarrow> emptySeatSelection)"

text \<open>\<open>normalizedSeats\<close>: the list the selection is read from, before it is cleaned.\<close>

definition payloadSeats :: "envelope \<Rightarrow> string option list" where
  "payloadSeats v =
     (let fromReservation =
            (case seat_assignments (payloadReservation v) of Some a \<Rightarrow> a | None \<Rightarrow> []);
          selectedCandidates =
            (case selected_seats (payloadSeatSelection v) of
               Some a \<Rightarrow> Some a
             | None \<Rightarrow> raw_selectedSeats (payloadSeatSelection v))
      in case selectedCandidates of Some a \<Rightarrow> a | None \<Rightarrow> fromReservation)"

definition normalizeReservationPayload :: "envelope \<Rightarrow> reservation" where
  "normalizeReservationPayload v =
     (let container = payloadContainer v;
          reservation = payloadReservation v;
          seatSelectionRaw = payloadSeatSelection v;
          selectedSeats = normalizeSeatList (payloadSeats v);
          seatSelection =
            \<lparr>ss_selectedSeats = Some selectedSeats,
             ss_updatedAt =
               orElse (updated_at seatSelectionRaw)
                 (orElse (raw_updatedAt seatSelectionRaw)
                   (seat_assignments_updated_at reservation))\<rparr>;
          seatMap = orElse (seat_map container) (c_seatMap container)
      in \<lparr>res_reservationId = reservation_id reservation,
          passengerCount = passenger_count reservation,
          passengers =
            Some (case raw_passengers reservation of Some ps \<Rightarrow> ps | None \<Rightarrow> []),
          res_seatMap = seatMap,
          seatSelection = Some seatSelection,
          res_selectedSeats = Some selectedSeats\<rparr>)"

definition rejection ::
  "string \<Rightarrow> string \<Rightarrow> string \<Rightarrow> http_outcome \<Rightarrow> api_error + (reservation \<times> envelope)" where
  "rejection genericMessage notFoundMessage failureCode outcome =
     (case outcome of
        Response e \<Rightarrow>
          Inl \<lparr>err_message =
                 Some (case Option.bind e env_message of Some m \<Rightarrow> m | None \<Rightarrow> genericMessage),
               err_code =
                 Some (case Option.bind e env_code of Some c \<Rightarrow> c | None \<Rightarrow> failureCode),
               err_status = None\<rparr>
      | ErrorResponse status detail \<Rightarrow>
          Inl \<lparr>err_message =
                 Some (case Option.bind detail detail_message of
                         Some m \<Rightarrow> m
                       | None \<Rightarrow> if status = 404 then notFoundMessage else genericMessage),
               err_code =
                 Some (case Option.bind detail detail_code of Some c \<Rightarrow> c | None \<Rightarrow> failureCode),
               err_status = Some status\<rparr>
      | NoResponse err \<Rightarrow> Inl err)"

definition fetchReservationById ::
  "string \<Rightarrow> http_outcome \<Rightarrow> api_error + (reservation \<times> envelope)" where
  "fetchReservationById reservationId outcome =
     (if reservationId = [] then
        Inl \<lparr>err_message = Some ''Reservation ID is required.'',
             err_code = Some ''RESERVATION_ID_REQUIRED'', err_status = None\<rparr>
      else
        (case outcome of
           Response (Some v) \<Rightarrow>
             if ok v then Inr (normalizeReservationPayload v, v)
             else rejection ''Unable to load the reservation details right now.''
                    ''We could not find a reservation with that ID.''
                    ''RESERVATION_FETCH_FAILED'' outcome
         | _ \<Rightarrow> rejection ''Unable to load the reservation details right now.''
                    ''We could not find a reservation with that ID.''
                    ''RESERVATION_FETCH_FAILED'' outcome))"

text \<open>
  The body of the PATCH request that \<open>updateReservationSeatSelection\<close> sends
  (\<open>selected_seats\<close>), or \<open>None\<close> when it throws before sending anything.
\<close>

definition submittedSeats :: "string \<Rightarrow> string option list option \<Rightarrow> string list option" where
  "submittedSeats reservationId seats =
     (if reservationId = [] then None
      else Some (normalizeSeatList (case seats of Some a \<Rightarrow> a | None \<Rightarrow> [])))"

definition updateReservationSeatSelection ::
  "string \<Rightarrow> string option list option \<Rightarrow> http_outcome
     \<Rightarrow> api_error + (reservation \<times> envelope)" where
  "updateReservationSeatSelection reservationId seats outcome =
     (if reservationId = [] then
        Inl \<lparr>err_message = Some ''Reservation ID is required.'',
             err_code = Some ''RESERVATION_ID_REQUIRED'', err_status = None\<rparr>
      else
        (case outcome of
           Response (Some v) \<Rightarrow>
             if ok v then Inr (normalizeReservationPayload v, v)
             else rejection ''Unable to update seat selection right now.''
                    ''We could not find that reservation when updating seats.''
                    ''SEAT_SELECTION_UPDATE_FAILED'' outcome
         | _ \<Rightarrow> rejection ''Unable to update seat selection right now.''
                    ''We could not find that reservation when updating seats.''
                    ''SEAT_SELECTION_UPDATE_FAILED'' outcome))"


section \<open>The reservation page (ReservationConfirmationPage.jsx)\<close>

text \<open>
  The component's state: the route's reservation identifier, the reservation carried
  by the navigation state (\<open>location.state?.reservation\<close>), and the \<open>useState\<close> cells.
  A state setter becomes a record update; a handler is a function from the state of the
  render it was created in to the next state.
\<close>

record page =
  reservationId :: string
  locationReservation :: "reservation option"
  reservation :: "reservation option"
  loading :: bool
  error :: string
  refreshCount :: nat
  seatMap :: "seat_map option"
  selectedSeats :: "string list"
  seatSelectionUpdatedAt :: string
  seatSyncError :: string
  isSyncingSeats :: bool
  isSeatModalOpen :: bool

text \<open>\<open>r.seatSelection?.selectedSeats ?? r.selectedSeats\<close>, before the final default.\<close>

definition reservationSeats :: "reservation \<Rightarrow> string list option" where
  "reservationSeats r =
     orElse (Option.bind (seatSelection r) ss_selectedSeats) (res_selectedSeats r)"

text \<open>\<open>r.seatSelection?.updatedAt ?? ''\<close>\<close>

definition reservationUpdatedAt :: "reservation \<Rightarrow> string" where
  "reservationUpdatedAt r =
     (case Option.bind (seatSelection r) ss_updatedAt of Some t \<Rightarrow> t | None \<Rightarrow> [])"

definition preloadedReservation :: "page \<Rightarrow> reservation option" where
  "preloadedReservation s =
     (case locationReservation s of
        Some r \<Rightarrow> if res_reservationId r = Some (reservationId s) then Some r else None
      | None \<Rightarrow> None)"

text \<open>The initial \<open>useState\<close> values of a page mounted on a route.\<close>

definition mountPage :: "string \<Rightarrow> reservation option \<Rightarrow> page" where
  "mountPage rid loc =
     (let pre = (case loc of
                   Some r \<Rightarrow> if res_reservationId r = Some rid then Some r else None
                 | None \<Rightarrow> None)
      in \<lparr>reservationId = rid,
          locationReservation = loc,
          reservation = pre,
          loading = (pre = None),
          error = (if rid \<noteq> [] then [] else ''Reservation ID missing from the link.''),
          refreshCount = 0,
          seatMap = Option.bind pre res_seatMap,
          selectedSeats =
            (case Option.bind pre reservationSeats of Some xs \<Rightarrow> xs | None \<Rightarrow> []),
          seatSelectionUpdatedAt = (case pre of Some r \<Rightarrow> reservationUpdatedAt r | None \<Rightarrow> []),
          seatSyncError = [],
          isSyncingSeats = False,
          isSeatModalOpen = False\<rparr>)"

text \<open>
  \<open>Math.max(1, reservation.passengerCount ?? fallbackPassengerCount)\<close>, computed the
  same way by \<open>handleSeatToggle\<close> and \<open>handleSeatConfirm\<close>.
\<close>

definition fallbackPassengerCount :: "reservation \<Rightarrow> int" where
  "fallbackPassengerCount r =
     (case passengers r of
        Some ps \<Rightarrow> if length ps \<noteq> 0 then int (length ps) else 1
      | None \<Rightarrow> 1)"

definition maxSelectable :: "reservation \<Rightarrow> int" where
  "maxSelectable r =
     max 1 (case passengerCount r of Some p \<Rightarrow> p | None \<Rightarrow> fallbackPassengerCount r)"

definition limitMessage :: "int \<Rightarrow> string" where
  "limitMessage n =
     ''You can select up to '' @ showInt n @ '' seat'' @ (if n = 1 then [] else ''s'') @ ''.''"

definition handleSeatToggle :: "string \<Rightarrow> page \<Rightarrow> page" where
  "handleSeatToggle seatId s =
     (case reservation s of
        None \<Rightarrow> s
      | Some r \<Rightarrow>
          if seatId = [] \<or> isSyncingSeats s then s
          else
            let normalized = toUpperCase (trim seatId) in
            if normalized = [] then s
            else
              let prev = selectedSeats s in
              if normalized \<in> set prev then
                s\<lparr>seatSyncError := [], selectedSeats := filter (\<lambda>seat. seat \<noteq> normalized) prev\<rparr>
              else if maxSelectable r \<le> int (length prev) then
                s\<lparr>seatSyncError := limitMessage (maxSelectable r)\<rparr>
              else
                s\<lparr>seatSyncError := [], selectedSeats := prev @ [normalized]\<rparr>)"

text \<open>
  \<open>handleSeatConfirm\<close> is asynchronous. \<open>handleSeatConfirm_begin\<close> is the part that runs
  up to the \<open>await\<close>: it returns the state and, when the gateway is called, what the
  continuation keeps in its closure. \<open>handleSeatConfirm_settle\<close> is the continuation
  (\<open>try\<close> body after the \<open>await\<close>, \<open>catch\<close>, \<open>finally\<close>), run on the state at the time
  the gateway's promise settles.
\<close>

record pending_confirm =
  pc_reservationId :: string
  trimmedSeats :: "string list"
  previousServerSeats :: "string list"

definition handleSeatConfirm_begin ::
  "string list option \<Rightarrow> page \<Rightarrow> page \<times> pending_confirm option" where
  "handleSeatConfirm_begin seatIds s =
     (case reservation s of
        None \<Rightarrow>
          (s\<lparr>seatSyncError := ''Reservation information is required before selecting seats.''\<rparr>,
           None)
      | Some r \<Rightarrow>
          if reservationId s = [] then
            (s\<lparr>seatSyncError :=
                 ''Reservation information is required before selecting seats.''\<rparr>, None)
          else if isSyncingSeats s then (s, None)
          else
            let seatsToPersist = (case seatIds of Some a \<Rightarrow> a | None \<Rightarrow> selectedSeats s);
                trimmed =
                  (if maxSelectable r < int (length seatsToPersist)
                   then take (nat (maxSelectable r)) seatsToPersist
                   else seatsToPersist);
                previous = (case reservationSeats r of Some xs \<Rightarrow> xs | None \<Rightarrow> [])
            in (s\<lparr>isSyncingSeats := True, seatSyncError := []\<rparr>,
                Some \<lparr>pc_reservationId = reservationId s, trimmedSeats = trimmed,
                      previousServerSeats = previous\<rparr>))"

text \<open>The gateway call the continuation awaits, and the seat list it puts on the wire.\<close>

definition confirmGatewayCall ::
  "pending_confirm \<Rightarrow> http_outcome \<Rightarrow> api_error + (reservation \<times> envelope)" where
  "confirmGatewayCall pc outcome =
     updateReservationSeatSelection (pc_reservationId pc) (Some (map Some (trimmedSeats pc)))
       outcome"

definition confirmSubmitted :: "pending_confirm \<Rightarrow> string list option" where
  "confirmSubmitted pc =
     submittedSeats (pc_reservationId pc) (Some (map Some (trimmedSeats pc)))"

definition handleSeatConfirm_settle ::
  "pending_confirm \<Rightarrow> api_error + (reservation \<times> envelope) \<Rightarrow> page \<Rightarrow> page" where
  "handleSeatConfirm_settle pc result s =
     (case result of
        Inr (updated, env) \<Rightarrow>
          s\<lparr>reservation := Some updated,
            seatMap := res_seatMap updated,
            selectedSeats :=
              (case reservationSeats updated of Some xs \<Rightarrow> xs | None \<Rightarrow> trimmedSeats pc),
            seatSelectionUpdatedAt := reservationUpdatedAt updated,
            seatSyncError := [],
            isSeatModalOpen := False,
            isSyncingSeats := False\<rparr>
      | Inl err \<Rightarrow>
          s\<lparr>seatSyncError :=
              (case err_message err of
                 Some m \<Rightarrow> m
               | None \<Rightarrow> ''We could not save your seat selection. Please try again.''),
            selectedSeats := previousServerSeats pc,
            isSyncingSeats := False\<rparr>)"

text \<open>
  A whole confirmation with nothing else happening while the request is outstanding:
  the synchronous part, then the continuation on the gateway's result.
\<close>

definition handleSeatConfirm :: "string list option \<Rightarrow> http_outcome \<Rightarrow> page \<Rightarrow> page" where
  "handleSeatConfirm seatIds outcome s =
     (case handleSeatConfirm_begin seatIds s of
        (s', None) \<Rightarrow> s'
      | (s', Some pc) \<Rightarrow> handleSeatConfirm_settle pc (confirmGatewayCall pc outcome) s')"

text \<open>
  A handler is created by a render. The state variables it reads directly
  (\<open>reservationId\<close>, \<open>reservation\<close>, \<open>isSyncingSeats\<close>, \<open>selectedSeats\<close>, \<open>seatMap\<close>) are
  those of that render, kept in its closure; its setters act on the state at the time
  of the call, and a functional updater (\<open>setSelectedSeats((prev) => ...)\<close>) reads that
  state. \<open>handleSeatToggle\<close> and \<open>handleSeatConfirm_begin\<close> above are the handlers
  called in the state of the render that created them. The following definitions take
  the state of the creating render as a separate first argument.
\<close>

definition handleSeatToggle_from :: "page \<Rightarrow> string \<Rightarrow> page \<Rightarrow> page" where
  "handleSeatToggle_from rendered seatId s =
     (case reservation rendered of
        None \<Rightarrow> s
      | Some r \<Rightarrow>
          if seatId = [] \<or> isSyncingSeats rendered then s
          else
            let normalized = toUpperCase (trim seatId) in
            if normalized = [] then s
            else
              let prev = selectedSeats s in
              if normalized \<in> set prev then
                s\<lparr>seatSyncError := [], selectedSeats := filter (\<lambda>seat. seat \<noteq> normalized) prev\<rparr>
              else if maxSelectable r \<le> int (length prev) then
                s\<lparr>seatSyncError := limitMessage (maxSelectable r)\<rparr>
              else
                s\<lparr>seatSyncError := [], selectedSeats := prev @ [normalized]\<rparr>)"

definition handleSeatConfirm_begin_from ::
  "page \<Rightarrow> string list option \<Rightarrow> page \<Rightarrow> page \<times> pending_confirm option" where
  "handleSeatConfirm_begin_from rendered seatIds s =
     (case reservation rendered of
        None \<Rightarrow>
          (s\<lparr>seatSyncError := ''Reservation information is required before selecting seats.''\<rparr>,
           None)
      | Some r \<Rightarrow>
          if reservationId rendered = [] then
            (s\<lparr>seatSyncError :=
                 ''Reservation information is required before selecting seats.''\<rparr>, None)
          else if isSyncingSeats rendered then (s, None)
          else
            let seatsToPersist =
                  (case seatIds of Some a \<Rightarrow> a | None \<Rightarrow> selectedSeats rendered);
                trimmed =
                  (if maxSelectable r < int (length seatsToPersist)
                   then take (nat (maxSelectable r)) seatsToPersist
                   else seatsToPersist);
                previous = (case reservationSeats r of Some xs \<Rightarrow> xs | None \<Rightarrow> [])
            in (s\<lparr>isSyncingSeats := True, seatSyncError := []\<rparr>,
                Some \<lparr>pc_reservationId = reservationId rendered, trimmedSeats = trimmed,
                      previousServerSeats = previous\<rparr>))"

definition handleOpenSeatModal :: "page \<Rightarrow> page \<Rightarrow> page" where
  "handleOpenSeatModal rendered s =
     (if seatMap rendered = None then s else s\<lparr>seatSyncError := [], isSeatModalOpen := True\<rparr>)"

text \<open>
  The loading effect. \<open>effectBody\<close> is what the effect does synchronously when it runs
  (including the synchronous start of \<open>loadReservation\<close>); the Boolean tells whether a
  fetch was started. \<open>loadReservation_settle\<close> is the rest of \<open>loadReservation\<close>, run when
  the fetch settles, with the value the invocation's \<open>cancelled\<close> variable has then.
\<close>

definition effectBody :: "page \<Rightarrow> page \<times> bool" where
  "effectBody s =
     (if reservationId s = [] then (s\<lparr>loading := False\<rparr>, False)
      else
        let pre = preloadedReservation s;
            hasInitialPreload = (pre \<noteq> None \<and> refreshCount s = 0);
            s1 = (if hasInitialPreload then
                    s\<lparr>reservation := pre,
                      seatMap := Option.bind pre res_seatMap,
                      selectedSeats :=
                        (case Option.bind pre reservationSeats of Some xs \<Rightarrow> xs | None \<Rightarrow> []),
                      seatSelectionUpdatedAt :=
                        (case pre of Some r \<Rightarrow> reservationUpdatedAt r | None \<Rightarrow> []),
                      seatSyncError := []\<rparr>
                  else s);
            s2 = s1\<lparr>loading := (\<not> hasInitialPreload \<or> 0 < refreshCount s)\<rparr>
        in (s2\<lparr>error := []\<rparr>, True))"

definition loadReservation_settle ::
  "bool \<Rightarrow> api_error + (reservation \<times> envelope) \<Rightarrow> page \<Rightarrow> page" where
  "loadReservation_settle cancelled result s =
     (if cancelled then s
      else
        (case result of
           Inr (normalized, env) \<Rightarrow>
             s\<lparr>reservation := Some normalized,
               error := [],
               seatMap := res_seatMap normalized,
               selectedSeats :=
                 (case reservationSeats normalized of Some xs \<Rightarrow> xs | None \<Rightarrow> []),
               seatSelectionUpdatedAt := reservationUpdatedAt normalized,
               seatSyncError := [],
               loading := False\<rparr>
         | Inl err \<Rightarrow>
             s\<lparr>error :=
                 (case err_message err of
                    Some m \<Rightarrow> m
                  | None \<Rightarrow>
                      ''Unable to retrieve the reservation at this time. Please try again later.''),
               reservation := None,
               seatMap := None,
               selectedSeats := [],
               seatSelectionUpdatedAt := [],
               loading := False\<rparr>))"


section \<open>The seat-map widget (SeatMap.jsx)\<close>

record seatmap_props =
  p_seatMap :: "seat_map option"
  p_selectedSeats :: "string list"
  p_onSeatToggle :: bool
  p_onConfirmSelection :: bool
  p_isSyncing :: bool
  p_syncError :: string

text \<open>
  \<open>selectedSeatIds\<close> is a \<open>Set\<close>; it is kept as the list of its elements in iteration
  order, and \<open>has\<close> is membership. \<open>sort()\<close> without a comparator orders strings by
  their code units, which is the lexicographic order on \<^typ>\<open>string\<close>.
\<close>

definition selectedSeatIds :: "seatmap_props \<Rightarrow> string list" where
  "selectedSeatIds props = arrayFromSet (map toUpperCase (p_selectedSeats props))"

definition sortedSelected :: "seatmap_props \<Rightarrow> string list" where
  "sortedSelected props = sort (selectedSeatIds props)"

text \<open>The argument \<open>handleSeatClick\<close> passes to \<open>onSeatToggle\<close>, if it calls it.\<close>

definition handleSeatClick :: "seatmap_props \<Rightarrow> seat \<Rightarrow> string option" where
  "handleSeatClick props seat =
     (if p_isSyncing props \<or> \<not> p_onSeatToggle props then None
      else
        let normalized = toUpperCase (seat_id seat) in
        if seat_status seat \<noteq> ''available'' \<and> normalized \<notin> set (selectedSeatIds props)
        then None
        else Some normalized)"

definition seatButtonDisabled :: "seatmap_props \<Rightarrow> seat \<Rightarrow> bool" where
  "seatButtonDisabled props seat =
     (let isSelected = (toUpperCase (seat_id seat) \<in> set (selectedSeatIds props));
          isUnavailable = (seat_status seat \<noteq> ''available'' \<and> \<not> isSelected)
      in isUnavailable \<or> p_isSyncing props)"

definition footerConfirmDisabled :: "seatmap_props \<Rightarrow> bool" where
  "footerConfirmDisabled props = (p_isSyncing props \<or> length (sortedSelected props) = 0)"

definition dialogConfirmDisabled :: "seatmap_props \<Rightarrow> bool" where
  "dialogConfirmDisabled props = (length (sortedSelected props) = 0 \<or> p_isSyncing props)"

text \<open>
  What a click does: the new value of \<open>showDialog\<close> and the intent reported to the
  page, if any. A button that is not rendered or is disabled receives no click.
\<close>

datatype intent = SeatToggle string | ConfirmSelection "string list"

datatype click = ClickSeat seat | ClickConfirm | ClickDialogConfirm | ClickDialogCancel

fun widgetClick :: "seatmap_props \<Rightarrow> bool \<Rightarrow> click \<Rightarrow> bool \<times> intent option" where
  "widgetClick props showDialog (ClickSeat seat) =
     (if seatButtonDisabled props seat then (showDialog, None)
      else (showDialog, map_option SeatToggle (handleSeatClick props seat)))"
| "widgetClick props showDialog ClickConfirm =
     (if \<not> p_onConfirmSelection props \<or> footerConfirmDisabled props then (showDialog, None)
      else (True, None))"
| "widgetClick props showDialog ClickDialogConfirm =
     (if \<not> showDialog \<or> dialogConfirmDisabled props \<or> \<not> p_onConfirmSelection props
      then (showDialog, None)
      else (False, Some (ConfirmSelection (sortedSelected props))))"
| "widgetClick props showDialog ClickDialogCancel =
     (if \<not> showDialog \<or> p_isSyncing props then (showDialog, None) else (False, None))"

text \<open>The props the page renders the widget with.\<close>

definition seatMapProps :: "page \<Rightarrow> seatmap_props" where
  "seatMapProps s =
     \<lparr>p_seatMap = seatMap s, p_selectedSeats = selectedSeats s, p_onSeatToggle = True,
      p_onConfirmSelection = True, p_isSyncing = isSyncingSeats s,
      p_syncError = seatSyncError s\<rparr>"


section \<open>The page as an event-driven system\<close>

text \<open>
  Handlers, effects and promise continuations run one at a time. The system keeps the
  current component state (\<open>view\<close>) and the state of the latest render (\<open>rendered\<close>),
  whose handlers the user interface holds: a handler called by an event reads
  \<open>rendered\<close> through its closure and updates \<open>view\<close>. The event \<open>Render\<close> is a
  render of the current state. The cleanup function of an effect run is called before
  the effect runs again and when the component unmounts.

  The system also keeps what is outstanding: one entry per run of the loading effect,
  with the value of that run's own \<open>cancelled\<close> variable, the identifier it fetches and
  whether its fetch is still outstanding; the confirmations whose gateway call has not
  settled; and a log of the seat-update requests sent so far.
\<close>

record effect_run =
  cancelled :: bool
  er_reservationId :: string
  fetching :: bool

record system =
  view :: page
  rendered :: page
  effects :: "effect_run list"
  inflight :: "pending_confirm list"
  issued :: "(string \<times> string list) list"

datatype event =
    Toggle string
  | Confirm "string list option"
  | SettleConfirm http_outcome
  | Retry
  | Navigate string "reservation option" bool
  | SettleLoad nat http_outcome
  | Unmount
  | OpenSeatModal
  | CloseSeatModal
  | Render

text \<open>The cleanup function of the latest effect run: \<open>cancelled = true\<close>.\<close>

definition cleanupEffect :: "effect_run list \<Rightarrow> effect_run list" where
  "cleanupEffect es = (if es = [] then [] else butlast es @ [(last es)\<lparr>cancelled := True\<rparr>])"

text \<open>
  A run of the effect, which follows a render of the current state: the previous run's
  cleanup, then the body.
\<close>

definition runEffect :: "system \<Rightarrow> system" where
  "runEffect sys =
     (case effectBody (view sys) of
        (s', started) \<Rightarrow>
          sys\<lparr>view := s',
              rendered := view sys,
              effects :=
                cleanupEffect (effects sys)
                  @ [\<lparr>cancelled = False, er_reservationId = reservationId s',
                       fetching = started\<rparr>]\<rparr>)"

definition mount :: "string \<Rightarrow> reservation option \<Rightarrow> system" where
  "mount rid loc =
     runEffect
       \<lparr>view = mountPage rid loc, rendered = mountPage rid loc, effects = [], inflight = [],
        issued = []\<rparr>"

text \<open>
  The dependency \<open>preloadedReservation\<close> of the effect is compared by identity. Two
  renders have the same one when both are \<open>null\<close>, or when both are the same object,
  which the event has to tell (\<open>sameObject\<close>).
\<close>

definition samePreloaded :: "bool \<Rightarrow> reservation option \<Rightarrow> reservation option \<Rightarrow> bool" where
  "samePreloaded sameObject old new =
     (case (old, new) of
        (None, None) \<Rightarrow> True
      | (Some a, Some b) \<Rightarrow> sameObject \<and> a = b
      | _ \<Rightarrow> False)"

fun fire :: "event \<Rightarrow> system \<Rightarrow> system" where
  "fire (Toggle seatId) sys =
     sys\<lparr>view := handleSeatToggle_from (rendered sys) seatId (view sys)\<rparr>"
| "fire (Confirm seatIds) sys =
     (case handleSeatConfirm_begin_from (rendered sys) seatIds (view sys) of
        (s', None) \<Rightarrow> sys\<lparr>view := s'\<rparr>
      | (s', Some pc) \<Rightarrow>
          sys\<lparr>view := s',
              inflight := inflight sys @ [pc],
              issued :=
                issued sys
                  @ (case confirmSubmitted pc of
                       Some body \<Rightarrow> [(pc_reservationId pc, body)]
                     | None \<Rightarrow> [])\<rparr>)"
| "fire (SettleConfirm outcome) sys =
     (case inflight sys of
        [] \<Rightarrow> sys
      | pc # rest \<Rightarrow>
          sys\<lparr>view := handleSeatConfirm_settle pc (confirmGatewayCall pc outcome) (view sys),
              inflight := rest\<rparr>)"
| "fire Retry sys =
     runEffect (sys\<lparr>view := (view sys)\<lparr>refreshCount := refreshCount (view sys) + 1\<rparr>\<rparr>)"
| "fire (Navigate rid loc sameObject) sys =
     (let s' = (view sys)\<lparr>reservationId := rid, locationReservation := loc\<rparr> in
      if reservationId s' = reservationId (view sys)
         \<and> samePreloaded sameObject (preloadedReservation (view sys)) (preloadedReservation s')
      then sys\<lparr>view := s', rendered := s'\<rparr>
      else runEffect (sys\<lparr>view := s'\<rparr>))"
| "fire (SettleLoad i outcome) sys =
     (if i < length (effects sys) \<and> fetching (effects sys ! i) then
        let run = effects sys ! i in
        sys\<lparr>view :=
              loadReservation_settle (cancelled run)
                (fetchReservationById (er_reservationId run) outcome) (view sys),
            effects := (effects sys)[i := run\<lparr>fetching := False\<rparr>]\<rparr>
      else sys)"
| "fire Unmount sys = sys\<lparr>effects := cleanupEffect (effects sys)\<rparr>"
| "fire OpenSeatModal sys = sys\<lparr>view := handleOpenSeatModal (rendered sys) (view sys)\<rparr>"
| "fire CloseSeatModal sys = sys\<lparr>view := (view sys)\<lparr>isSeatModalOpen := False\<rparr>\<rparr>"
| "fire Render sys = sys\<lparr>rendered := view sys\<rparr>"

definition run :: "event list \<Rightarrow> system \<Rightarrow> system" where
  "run evs sys = foldl (\<lambda>s e. fire e s) sys evs"


section \<open>Derived notions used in the statements\<close>

text \<open>
  The normal form of a seat list: no duplicates, and every entry non-empty, trimmed
  and uppercase.
\<close>

definition seatNormalForm :: "string list \<Rightarrow> bool" where
  "seatNormalForm xs =
     (distinct xs \<and> (\<forall>x \<in> set xs. x \<noteq> [] \<and> trim x = x \<and> toUpperCase x = x))"

text \<open>
  The list \<open>handleSeatConfirm\<close> hands to the gateway (\<open>trimmedSeats\<close>): the given
  list, or the current selection when none is given, cut to the seat limit.
\<close>

definition confirmTrimmed :: "string list option \<Rightarrow> page \<Rightarrow> reservation \<Rightarrow> string list" where
  "confirmTrimmed seatIds s r =
     (let seatsToPersist = (case seatIds of Some a \<Rightarrow> a | None \<Rightarrow> selectedSeats s)
      in if maxSelectable r < int (length seatsToPersist)
         then take (nat (maxSelectable r)) seatsToPersist else seatsToPersist)"

text \<open>
  The seat list that a call of \<open>handleSeatConfirm\<close> puts on the wire, or \<open>None\<close> when
  the call sends no request.
\<close>

definition confirmSelectionSubmits :: "string list option \<Rightarrow> page \<Rightarrow> string list option" where
  "confirmSelectionSubmits seatIds s =
     (case handleSeatConfirm_begin seatIds s of
        (s', Some pc) \<Rightarrow> confirmSubmitted pc
      | (s', None) \<Rightarrow> None)"

text \<open>
  The submitted list as the specification words it: the first \<open>max(1, P)\<close> entries of
  the deduplicated, case-normalized input.
\<close>

definition specSubmitted :: "int \<Rightarrow> string list \<Rightarrow> string list" where
  "specSubmitted P seats = take (nat (max 1 P)) (normalizeSeatList (map Some seats))"


text \<open>
  The system after mounting the page on a route and running a sequence of events.
\<close>

definition trace :: "string \<Rightarrow> reservation option \<Rightarrow> event list \<Rightarrow> system" where
  "trace rid loc evs = run evs (mount rid loc)"

text \<open>
  What holds of every system reached that way: every run of the loading effect but
  the latest has its \<open>cancelled\<close> variable set.
\<close>

definition loadsInvariant :: "system \<Rightarrow> bool" where
  "loadsInvariant sys = list_all cancelled (butlast (effects sys))"

text \<open>
  A sequence of events with a render after each of them, as the user interface
  produces it: the page is rendered again before the next event is delivered, so every
  handler that is called belongs to the latest render.
\<close>

definition rendering :: "event list \<Rightarrow> event list" where
  "rendering evs = concat (map (\<lambda>e. [e, Render]) evs)"

text \<open>
  What holds of every system reached by such a sequence: the latest render shows the
  current state, at most one confirmation is outstanding, and the sync flag is set
  exactly while one is.
\<close>

definition syncInvariant :: "system \<Rightarrow> bool" where
  "syncInvariant sys =
     (rendered sys = view sys
      \<and> length (inflight sys) \<le> 1
      \<and> (isSyncingSeats (view sys) \<longleftrightarrow> inflight sys \<noteq> []))"


section \<open>Example data\<close>

definition exampleReservation :: "int \<Rightarrow> string list \<Rightarrow> reservation" where
  "exampleReservation P confirmed =
     \<lparr>res_reservationId = Some ''R1'', passengerCount = Some P, passengers = Some [],
      res_seatMap = None,
      seatSelection = Some \<lparr>ss_selectedSeats = Some confirmed, ss_updatedAt = None\<rparr>,
      res_selectedSeats = Some confirmed\<rparr>"

definition examplePage :: "int \<Rightarrow> string list \<Rightarrow> string list \<Rightarrow> page" where
  "examplePage P confirmed selected =
     \<lparr>reservationId = ''R1'', locationReservation = None,
      reservation = Some (exampleReservation P confirmed), loading = False, error = [],
      refreshCount = 0, seatMap = None, selectedSeats = selected,
      seatSelectionUpdatedAt = [], seatSyncError = [], isSyncingSeats = False,
      isSeatModalOpen = True\<rparr>"

definition exampleContainer :: "string option list \<Rightarrow> container" where
  "exampleContainer seats =
     \<lparr>c_reservation =
        Some \<lparr>reservation_id = Some ''R1'', passenger_count = Some 2, raw_passengers = None,
              seat_assignments = Some [Some ''9c''], seat_assignments_updated_at = None\<rparr>,
      c_seat_selection =
        Some \<lparr>selected_seats = Some seats, raw_selectedSeats = None,
              updated_at = Some ''2024-05-01T10:00:00Z'', raw_updatedAt = None\<rparr>,
      seat_map = Some \<lparr>sections = Some [], availableSeats = Some 10, bookedSeats = Some 2\<rparr>,
      c_seatMap = None\<rparr>"

definition exampleEnvelope :: "bool \<Rightarrow> string option \<Rightarrow> string option list \<Rightarrow> envelope" where
  "exampleEnvelope isOk msg seats =
     \<lparr>ok = isOk, env_message = msg, env_code = None, env_data = None,
      env_top = exampleContainer seats\<rparr>"

text \<open>
  Payloads that carry the container in \<open>data\<close>, beside top-level properties with other
  values that must not be read.
\<close>

definition decoyContainer :: container where
  "decoyContainer =
     \<lparr>c_reservation =
        Some \<lparr>reservation_id = Some ''XX'', passenger_count = Some 9, raw_passengers = None,
              seat_assignments = Some [Some ''1z''],
              seat_assignments_updated_at = Some ''1999-01-01T00:00:00Z''\<rparr>,
      c_seat_selection =
        Some \<lparr>selected_seats = Some [Some ''2z''], raw_selectedSeats = Some [Some ''3z''],
              updated_at = Some ''1999-02-02T00:00:00Z'', raw_updatedAt = None\<rparr>,
      seat_map = Some \<lparr>sections = None, availableSeats = Some 0, bookedSeats = Some 0\<rparr>,
      c_seatMap = None\<rparr>"

definition containerOf ::
  "raw_seat_selection option \<Rightarrow> string option list option \<Rightarrow> string option
     \<Rightarrow> seat_map option \<Rightarrow> seat_map option \<Rightarrow> container" where
  "containerOf selection assignments assignedAt snakeMap camelMap =
     \<lparr>c_reservation =
        Some \<lparr>reservation_id = Some ''R1'', passenger_count = Some 2,
              raw_passengers = Some [''Ada'', ''Bob''], seat_assignments = assignments,
              seat_assignments_updated_at = assignedAt\<rparr>,
      c_seat_selection = selection, seat_map = snakeMap, c_seatMap = camelMap\<rparr>"

definition dataEnvelope :: "container \<Rightarrow> envelope" where
  "dataEnvelope c =
     \<lparr>ok = True, env_message = None, env_code = None, env_data = Some c,
      env_top = decoyContainer\<rparr>"

definition cabin :: "int \<Rightarrow> seat_map" where
  "cabin free =
     \<lparr>sections =
        Some [\<lparr>section_rows =
                 [\<lparr>row_seats = [\<lparr>seat_id = ''7C'', seat_status = ''available''\<rparr>]\<rparr>]\<rparr>],
      availableSeats = Some free, bookedSeats = Some 2\<rparr>"

text \<open>
  Three replies of the reservation service: one with a \<open>selected_seats\<close> list, a time
  stamp and a seat map in snake case; one with the selection and its time stamp in
  camel case only and no seat map; one without a \<open>seat_selection\<close> object, whose seats
  and time stamp come from the reservation's seat assignments and whose seat map is in
  camel case.
\<close>

definition snakeReply :: envelope where
  "snakeReply =
     dataEnvelope
       (containerOf
          (Some \<lparr>selected_seats = Some [Some '' 7c '', None, Some ''7C'', Some ''  '', Some ''8d''],
                 raw_selectedSeats = Some [Some ''4d''],
                 updated_at = Some ''2024-05-01T10:00:00Z'',
                 raw_updatedAt = Some ''2022-02-02T09:00:00Z''\<rparr>)
          (Some [Some ''9c'']) (Some ''2023-03-03T08:00:00Z'')
          (Some (cabin 10)) (Some (cabin 99)))"

definition camelReply :: envelope where
  "camelReply =
     dataEnvelope
       (containerOf
          (Some \<lparr>selected_seats = None, raw_selectedSeats = Some [Some ''4d'', Some ''4D''],
                 updated_at = None, raw_updatedAt = Some ''2022-02-02T09:00:00Z''\<rparr>)
          (Some [Some ''9c'']) (Some ''2023-03-03T08:00:00Z'') None None)"

definition assignmentsReply :: envelope where
  "assignmentsReply =
     dataEnvelope
       (containerOf None (Some [Some ''9c'', Some '' 9C'', None, Some ''10a''])
          (Some ''2023-03-03T08:00:00Z'') None (Some (cabin 5)))"


section \<open>Properties of the string functions and of the seat-list pipeline\<close>

lemma set_arrayFromSet: "set (arrayFromSet xs) = set xs"
  by (induction xs rule: arrayFromSet.induct) auto

lemma distinct_arrayFromSet: "distinct (arrayFromSet xs)"
  by (induction xs rule: arrayFromSet.induct) (auto simp: set_arrayFromSet)

lemma of_char_toUpperCaseChar:
  "(of_char (toUpperCaseChar c) :: nat) =
     (if 97 \<le> (of_char c :: nat) \<and> (of_char c :: nat) \<le> 122 then of_char c - 32 else of_char c)"
proof -
  have "(of_char c - 32 :: nat) mod 256 = of_char c - 32"
    by (rule mod_less) (use of_char_mod_256 [of c, where ?'a = nat] in arith)
  then show ?thesis
    by (simp add: toUpperCaseChar_def Let_def)
qed

lemma toUpperCaseChar_idem: "toUpperCaseChar (toUpperCaseChar c) = toUpperCaseChar c"
proof (cases "97 \<le> (of_char c :: nat) \<and> (of_char c :: nat) \<le> 122")
  case True
  then have "\<not> (97 \<le> (of_char (toUpperCaseChar c) :: nat))"
    unfolding of_char_toUpperCaseChar by auto
  then show ?thesis
    by (simp add: toUpperCaseChar_def [of "toUpperCaseChar c"] Let_def)
next
  case False
  then have "toUpperCaseChar c = c"
    by (auto simp add: toUpperCaseChar_def Let_def)
  then show ?thesis by simp
qed

lemma toUpperCase_idem: "toUpperCase (toUpperCase s) = toUpperCase s"
  by (simp add: toUpperCase_def toUpperCaseChar_idem)

lemma isWhiteSpace_toUpperCaseChar: "isWhiteSpace (toUpperCaseChar c) = isWhiteSpace c"
  unfolding isWhiteSpace_def of_char_toUpperCaseChar by auto

lemma dropWhile_ws_toUpperCase:
  "dropWhile isWhiteSpace (toUpperCase s) = toUpperCase (dropWhile isWhiteSpace s)"
  by (induction s) (auto simp: toUpperCase_def isWhiteSpace_toUpperCaseChar)

lemma trim_toUpperCase: "trim (toUpperCase s) = toUpperCase (trim s)"
proof -
  have "rev (toUpperCase s) = toUpperCase (rev s)" for s
    by (simp add: toUpperCase_def rev_map)
  then show ?thesis
    by (simp add: trim_def dropWhile_ws_toUpperCase)
qed

lemma dropWhile_trim: "dropWhile isWhiteSpace (trim s) = trim s"
proof (cases "dropWhile isWhiteSpace s")
  case Nil
  show ?thesis unfolding trim_def Nil by simp
next
  case (Cons x u)
  then have nx: "\<not> isWhiteSpace x"
    by (metis hd_dropWhile list.sel(1) list.distinct(1))
  have "trim s = x # rev (dropWhile isWhiteSpace (rev u))"
    using nx by (simp add: trim_def Cons dropWhile_append3)
  then show ?thesis using nx by simp
qed

lemma trim_idem: "trim (trim s) = trim s"
proof -
  have "dropWhile isWhiteSpace (rev (trim s)) = rev (trim s)"
    by (simp add: trim_def)
  then show ?thesis
    unfolding trim_def [of "trim s"] dropWhile_trim by simp
qed

lemma normalizeSeat_trimmed: "trim (toUpperCase (trim s)) = toUpperCase (trim s)"
  by (simp add: trim_toUpperCase trim_idem)

lemma normalizeSeatList_set:
  "set (normalizeSeatList seats) =
     {toUpperCase (trim s) | s. Some s \<in> set seats \<and> toUpperCase (trim s) \<noteq> []}"
  by (force simp: normalizeSeatList_def set_arrayFromSet)

lemma showNat_ne: "showNat n \<noteq> []"
  by (subst showNat.simps) simp

lemma trim_Nil [simp]: "trim [] = []"
  by (simp add: trim_def)

lemma toUpperCase_Nil [simp]: "toUpperCase [] = []"
  by (simp add: toUpperCase_def)

lemma distinct_normalizeSeatList: "distinct (normalizeSeatList seats)"
  by (simp add: normalizeSeatList_def distinct_arrayFromSet)

lemma seatNormalForm_normalizeSeatList: "seatNormalForm (normalizeSeatList seats)"
  unfolding seatNormalForm_def
  by (auto simp add: normalizeSeatList_set normalizeSeat_trimmed toUpperCase_idem
        distinct_normalizeSeatList)

lemma reservationSeats_normalize:
  "reservationSeats (normalizeReservationPayload v) = Some (normalizeSeatList (payloadSeats v))"
  by (simp add: reservationSeats_def normalizeReservationPayload_def orElse_def Let_def)


section \<open>Properties of the gateway and of the handlers\<close>

lemma gateway_result_normalized:
  assumes "updateReservationSeatSelection rid seats outcome = Inr (u, v)"
  shows "u = normalizeReservationPayload v \<and> ok v \<and> outcome = Response (Some v)"
proof (cases outcome)
  case (NoResponse e)
  then show ?thesis using assms
    by (simp add: updateReservationSeatSelection_def rejection_def split: if_splits)
next
  case (ErrorResponse st d)
  then show ?thesis using assms
    by (simp add: updateReservationSeatSelection_def rejection_def split: if_splits)
next
  case (Response e)
  then show ?thesis using assms
    by (cases e) (auto simp add: updateReservationSeatSelection_def rejection_def split: if_splits)
qed

lemma fetch_result_normalized:
  assumes "fetchReservationById rid outcome = Inr (u, v)"
  shows "u = normalizeReservationPayload v \<and> ok v \<and> outcome = Response (Some v)"
proof (cases outcome)
  case (NoResponse e)
  then show ?thesis using assms
    by (simp add: fetchReservationById_def rejection_def split: if_splits)
next
  case (ErrorResponse st d)
  then show ?thesis using assms
    by (simp add: fetchReservationById_def rejection_def split: if_splits)
next
  case (Response e)
  then show ?thesis using assms
    by (cases e) (auto simp add: fetchReservationById_def rejection_def split: if_splits)
qed

lemma handleSeatConfirm_begin_missing:
  "reservation s = None \<or> reservationId s = [] \<Longrightarrow>
     handleSeatConfirm_begin seatIds s
       = (s\<lparr>seatSyncError := ''Reservation information is required before selecting seats.''\<rparr>,
          None)"
  by (auto simp add: handleSeatConfirm_begin_def split: option.splits)

lemma handleSeatConfirm_begin_busy:
  "\<lbrakk>reservation s = Some r; reservationId s \<noteq> []; isSyncingSeats s\<rbrakk>
     \<Longrightarrow> handleSeatConfirm_begin seatIds s = (s, None)"
  by (simp add: handleSeatConfirm_begin_def)

lemma handleSeatConfirm_begin_issue:
  "\<lbrakk>reservation s = Some r; reservationId s \<noteq> []; \<not> isSyncingSeats s\<rbrakk>
     \<Longrightarrow> handleSeatConfirm_begin seatIds s
          = (s\<lparr>isSyncingSeats := True, seatSyncError := []\<rparr>,
             Some \<lparr>pc_reservationId = reservationId s,
                   trimmedSeats = confirmTrimmed seatIds s r,
                   previousServerSeats =
                     (case reservationSeats r of Some xs \<Rightarrow> xs | None \<Rightarrow> [])\<rparr>)"
  by (simp add: handleSeatConfirm_begin_def confirmTrimmed_def Let_def)

lemma handleSeatConfirm_begin_Some:
  assumes "handleSeatConfirm_begin seatIds s = (s1, Some pc)"
  obtains r where "reservation s = Some r" "reservationId s \<noteq> []" "\<not> isSyncingSeats s"
    "s1 = s\<lparr>isSyncingSeats := True, seatSyncError := []\<rparr>"
    "pc = \<lparr>pc_reservationId = reservationId s,
                   trimmedSeats = confirmTrimmed seatIds s r,
                   previousServerSeats =
                     (case reservationSeats r of Some xs \<Rightarrow> xs | None \<Rightarrow> [])\<rparr>"
proof (cases "reservation s = None \<or> reservationId s = []")
  case True
  from handleSeatConfirm_begin_missing [OF this, of seatIds] assms show ?thesis by simp
next
  case False
  then obtain r where r: "reservation s = Some r" "reservationId s \<noteq> []" by auto
  show ?thesis
  proof (cases "isSyncingSeats s")
    case True
    from handleSeatConfirm_begin_busy [OF r this, of seatIds] assms show ?thesis by simp
  next
    case False
    from handleSeatConfirm_begin_issue [OF r this, of seatIds] assms that [OF r False]
    show ?thesis by simp
  qed
qed

lemma handleSeatToggle_reservation [simp]:
  "reservation (handleSeatToggle seatId s) = reservation s"
  by (simp add: handleSeatToggle_def Let_def split: option.splits)

lemma handleSeatToggle_noop:
  "reservation s = None \<or> seatId = [] \<or> isSyncingSeats s \<or> toUpperCase (trim seatId) = []
     \<Longrightarrow> handleSeatToggle seatId s = s"
  by (auto simp add: handleSeatToggle_def Let_def split: option.splits)

lemma handleSeatToggle_remove:
  "\<lbrakk>reservation s = Some r; seatId \<noteq> []; \<not> isSyncingSeats s; toUpperCase (trim seatId) \<noteq> [];
    toUpperCase (trim seatId) \<in> set (selectedSeats s)\<rbrakk>
   \<Longrightarrow> handleSeatToggle seatId s
        = s\<lparr>seatSyncError := [],
             selectedSeats :=
               filter (\<lambda>seat. seat \<noteq> toUpperCase (trim seatId)) (selectedSeats s)\<rparr>"
  by (simp add: handleSeatToggle_def Let_def)

lemma handleSeatToggle_limit:
  "\<lbrakk>reservation s = Some r; seatId \<noteq> []; \<not> isSyncingSeats s; toUpperCase (trim seatId) \<noteq> [];
    toUpperCase (trim seatId) \<notin> set (selectedSeats s);
    maxSelectable r \<le> int (length (selectedSeats s))\<rbrakk>
   \<Longrightarrow> handleSeatToggle seatId s = s\<lparr>seatSyncError := limitMessage (maxSelectable r)\<rparr>"
  by (simp add: handleSeatToggle_def Let_def)

lemma handleSeatToggle_add:
  "\<lbrakk>reservation s = Some r; seatId \<noteq> []; \<not> isSyncingSeats s; toUpperCase (trim seatId) \<noteq> [];
    toUpperCase (trim seatId) \<notin> set (selectedSeats s);
    \<not> maxSelectable r \<le> int (length (selectedSeats s))\<rbrakk>
   \<Longrightarrow> handleSeatToggle seatId s
        = s\<lparr>seatSyncError := [], selectedSeats := selectedSeats s @ [toUpperCase (trim seatId)]\<rparr>"
  by (simp add: handleSeatToggle_def Let_def)

lemma handleSeatToggle_length:
  assumes "reservation s = Some r"
  shows "int (length (selectedSeats (handleSeatToggle seatId s)))
           \<le> max (int (length (selectedSeats s))) (maxSelectable r)"
proof (cases "seatId = [] \<or> isSyncingSeats s \<or> toUpperCase (trim seatId) = []")
  case True
  then show ?thesis by (simp add: handleSeatToggle_noop)
next
  case False
  show ?thesis
  proof (cases "toUpperCase (trim seatId) \<in> set (selectedSeats s)")
    case True
    then show ?thesis
      using False assms by (simp add: handleSeatToggle_remove le_max_iff_disj)
  next
    case absent: False
    show ?thesis
    proof (cases "maxSelectable r \<le> int (length (selectedSeats s))")
      case True
      then show ?thesis
        using False absent assms by (simp add: handleSeatToggle_limit le_max_iff_disj)
    next
      case False
      then show ?thesis
        using \<open>\<not> (seatId = [] \<or> isSyncingSeats s \<or> toUpperCase (trim seatId) = [])\<close>
          absent assms by (simp add: handleSeatToggle_add le_max_iff_disj)
    qed
  qed
qed

lemma toggles_never_exceed:
  assumes "reservation s = Some r"
  shows "int (length (selectedSeats (foldl (\<lambda>st seatId. handleSeatToggle seatId st) s seatIds)))
           \<le> max (int (length (selectedSeats s))) (maxSelectable r)"
  using assms
proof (induction seatIds arbitrary: s)
  case Nil
  then show ?case by simp
next
  case (Cons a seatIds)
  have one: "int (length (selectedSeats (handleSeatToggle a s)))
               \<le> max (int (length (selectedSeats s))) (maxSelectable r)"
    by (rule handleSeatToggle_length [OF Cons.prems])
  have "reservation (handleSeatToggle a s) = Some r"
    using Cons.prems by simp
  from Cons.IH [OF this]
  have "int (length (selectedSeats
               (foldl (\<lambda>st seatId. handleSeatToggle seatId st) (handleSeatToggle a s) seatIds)))
          \<le> max (int (length (selectedSeats (handleSeatToggle a s)))) (maxSelectable r)" .
  with one show ?case by simp
qed


text \<open>
  The normalized reservation in terms of the properties of the payload's container.
\<close>

lemma payloadSeats_raw:
  assumes "c = (case env_data v of Some d \<Rightarrow> d | None \<Rightarrow> env_top v)"
  shows "payloadSeats v
       = (case Option.bind (c_seat_selection c) selected_seats of
            Some a \<Rightarrow> a
          | None \<Rightarrow>
              (case Option.bind (c_seat_selection c) raw_selectedSeats of
                 Some a \<Rightarrow> a
               | None \<Rightarrow>
                   (case Option.bind (c_reservation c) seat_assignments of
                      Some b \<Rightarrow> b
                    | None \<Rightarrow> [])))"
  unfolding assms payloadSeats_def payloadSeatSelection_def payloadReservation_def
    payloadContainer_def emptySeatSelection_def emptyReservation_def Let_def
  by (simp split: option.splits)

lemma normalized_updatedAt_raw:
  assumes "c = (case env_data v of Some d \<Rightarrow> d | None \<Rightarrow> env_top v)"
  shows "reservationUpdatedAt (normalizeReservationPayload v)
       = (case Option.bind (c_seat_selection c) updated_at of
            Some t \<Rightarrow> t
          | None \<Rightarrow>
              (case Option.bind (c_seat_selection c) raw_updatedAt of
                 Some t \<Rightarrow> t
               | None \<Rightarrow>
                   (case Option.bind (c_reservation c) seat_assignments_updated_at of
                      Some t \<Rightarrow> t
                    | None \<Rightarrow> [])))"
  unfolding assms reservationUpdatedAt_def normalizeReservationPayload_def
    payloadSeatSelection_def payloadReservation_def payloadContainer_def
    emptySeatSelection_def emptyReservation_def orElse_def Let_def
  by (simp split: option.splits)

lemma normalized_seatMap_raw:
  assumes "c = (case env_data v of Some d \<Rightarrow> d | None \<Rightarrow> env_top v)"
  shows "res_seatMap (normalizeReservationPayload v)
       = (case seat_map c of Some m \<Rightarrow> Some m | None \<Rightarrow> c_seatMap c)"
  unfolding assms normalizeReservationPayload_def payloadContainer_def orElse_def Let_def
  by simp

lemma normalized_fields_raw:
  assumes "c = (case env_data v of Some d \<Rightarrow> d | None \<Rightarrow> env_top v)"
  shows "res_reservationId (normalizeReservationPayload v)
           = Option.bind (c_reservation c) reservation_id"
    and "passengerCount (normalizeReservationPayload v)
           = Option.bind (c_reservation c) passenger_count"
  unfolding assms normalizeReservationPayload_def payloadReservation_def
    payloadContainer_def emptyReservation_def Let_def
  by (simp_all split: option.splits)


section \<open>Seat toggling\<close>

text \<open>
  C1. For a reservation with passenger count \<open>P \<ge> 1\<close>, no sequence of
  \<open>handleSeatToggle\<close> calls makes the selection longer than the larger of its length
  before and the limit \<open>max(1, P)\<close>; a selection within the limit therefore stays
  within the limit. A toggle of a seat that is not selected, made when the selection
  has reached the limit, leaves the selection unchanged and sets the message
  "You can select up to N seat." for \<open>N = 1\<close> and "You can select up to N seats."
  otherwise.
\<close>

theorem toggleSeat_limit:
  assumes "reservation s = Some r" and "passengerCount r = Some P" and "1 \<le> P"
  shows "int (length (selectedSeats (foldl (\<lambda>st seatId. handleSeatToggle seatId st) s seatIds)))
           \<le> max (int (length (selectedSeats s))) (max 1 P)
         \<and> (int (length (selectedSeats s)) \<le> max 1 P \<longrightarrow>
              int (length (selectedSeats
                     (foldl (\<lambda>st seatId. handleSeatToggle seatId st) s seatIds)))
                \<le> max 1 P)
         \<and> (seatId \<noteq> [] \<and> \<not> isSyncingSeats s \<and> toUpperCase (trim seatId) \<noteq> []
              \<and> toUpperCase (trim seatId) \<notin> set (selectedSeats s)
              \<and> max 1 P \<le> int (length (selectedSeats s))
            \<longrightarrow> selectedSeats (handleSeatToggle seatId s) = selectedSeats s
                \<and> seatSyncError (handleSeatToggle seatId s)
                    = ''You can select up to '' @ showInt (max 1 P)
                        @ (if max 1 P = 1 then '' seat.'' else '' seats.''))"
proof -
  have m: "maxSelectable r = max 1 P"
    using assms(2) by (simp add: maxSelectable_def)
  have a: "int (length (selectedSeats (foldl (\<lambda>st seatId. handleSeatToggle seatId st) s seatIds)))
           \<le> max (int (length (selectedSeats s))) (max 1 P)"
    using toggles_never_exceed [OF assms(1), of seatIds] m by simp
  have b: "seatId \<noteq> [] \<and> \<not> isSyncingSeats s \<and> toUpperCase (trim seatId) \<noteq> []
              \<and> toUpperCase (trim seatId) \<notin> set (selectedSeats s)
              \<and> max 1 P \<le> int (length (selectedSeats s))
            \<longrightarrow> selectedSeats (handleSeatToggle seatId s) = selectedSeats s
                \<and> seatSyncError (handleSeatToggle seatId s)
                    = ''You can select up to '' @ showInt (max 1 P)
                        @ (if max 1 P = 1 then '' seat.'' else '' seats.'')"
    using assms(1) m by (simp add: handleSeatToggle_def Let_def limitMessage_def)
  from a have c: "int (length (selectedSeats s)) \<le> max 1 P \<longrightarrow>
              int (length (selectedSeats
                     (foldl (\<lambda>st seatId. handleSeatToggle seatId st) s seatIds)))
                \<le> max 1 P"
    by linarith
  from a b c show ?thesis by blast
qed

theorem toggleSeat_limit_witness:
  "reservation (examplePage 2 [] [''12A'', ''12B'']) = Some (exampleReservation 2 [])
   \<and> passengerCount (exampleReservation 2 []) = Some 2
   \<and> (1::int) \<le> 2
   \<and> int (length (selectedSeats (examplePage 2 [] [''12A'', ''12B'']))) \<le> max 1 2
   \<and> int (length (selectedSeats
          (foldl (\<lambda>st seatId. handleSeatToggle seatId st) (examplePage 2 [] [''12A'', ''12B''])
             [''12a'', ''14c'', ''12a'', ''15d'']))) \<le> max 1 2
   \<and> selectedSeats (handleSeatToggle ''14c'' (examplePage 2 [] [''12A'', ''12B'']))
        = [''12A'', ''12B'']
   \<and> seatSyncError (handleSeatToggle ''14c'' (examplePage 2 [] [''12A'', ''12B'']))
        = ''You can select up to 2 seats.''"
proof -
  let ?s = "examplePage 2 [] [''12A'', ''12B'']"
  have h1: "reservation ?s = Some (exampleReservation 2 [])"
    by (simp add: examplePage_def)
  have h2: "passengerCount (exampleReservation 2 []) = Some 2"
    by (simp add: exampleReservation_def)
  have h3: "(1::int) \<le> 2" by simp
  have h4: "int (length (selectedSeats ?s)) \<le> max 1 2"
    by (simp add: examplePage_def)
  have ante: "''14c'' \<noteq> [] \<and> \<not> isSyncingSeats ?s \<and> toUpperCase (trim ''14c'') \<noteq> []
              \<and> toUpperCase (trim ''14c'') \<notin> set (selectedSeats ?s)
              \<and> max 1 2 \<le> int (length (selectedSeats ?s))"
    by code_simp
  have msg: "''You can select up to '' @ showInt (max 1 2)
               @ (if max 1 (2::int) = 1 then '' seat.'' else '' seats.'')
             = ''You can select up to 2 seats.''"
    by code_simp
  have sel: "selectedSeats ?s = [''12A'', ''12B'']"
    by (simp add: examplePage_def)
  from toggleSeat_limit [OF h1 h2 h3, of "[''12a'', ''14c'', ''12a'', ''15d'']" "''14c''"] h4 ante
  have "int (length (selectedSeats
          (foldl (\<lambda>st seatId. handleSeatToggle seatId st) ?s
             [''12a'', ''14c'', ''12a'', ''15d'']))) \<le> max 1 2"
    and "selectedSeats (handleSeatToggle ''14c'' ?s) = selectedSeats ?s"
    and "seatSyncError (handleSeatToggle ''14c'' ?s)
           = ''You can select up to '' @ showInt (max 1 2)
               @ (if max 1 (2::int) = 1 then '' seat.'' else '' seats.'')"
    by blast+
  then show ?thesis
    using h1 h2 h3 h4 msg sel by simp
qed

text \<open>
  C6. A toggle of an identifier whose normalized form (trimmed, uppercase) is in the
  selection removes it and clears the error message, when a reservation is loaded and
  no sync is running. \<open>handleSeatToggle\<close> never reads the seat's status, and the
  widget forwards the click on a selected seat whatever status the seat map reports.
\<close>

theorem toggleSeat_removes_selected:
  assumes "reservation s = Some r" and "\<not> isSyncingSeats s"
    and "toUpperCase (trim seatId) \<noteq> []"
    and "toUpperCase (trim seatId) \<in> set (selectedSeats s)"
  shows "selectedSeats (handleSeatToggle seatId s)
           = filter (\<lambda>seat. seat \<noteq> toUpperCase (trim seatId)) (selectedSeats s)
         \<and> toUpperCase (trim seatId) \<notin> set (selectedSeats (handleSeatToggle seatId s))
         \<and> seatSyncError (handleSeatToggle seatId s) = []
         \<and> (trim seatId = seatId \<longrightarrow>
              (\<forall>status showDialog.
                 widgetClick (seatMapProps s) showDialog
                     (ClickSeat \<lparr>seat_id = seatId, seat_status = status\<rparr>)
                   = (showDialog, Some (SeatToggle (toUpperCase seatId))))
              \<and> handleSeatToggle (toUpperCase seatId) s = handleSeatToggle seatId s)"
proof -
  have ne: "seatId \<noteq> []"
    using assms(3) by auto
  have eq: "handleSeatToggle seatId s
        = s\<lparr>seatSyncError := [],
             selectedSeats :=
               filter (\<lambda>seat. seat \<noteq> toUpperCase (trim seatId)) (selectedSeats s)\<rparr>"
    using assms ne by (simp add: handleSeatToggle_remove)
  have a: "selectedSeats (handleSeatToggle seatId s)
           = filter (\<lambda>seat. seat \<noteq> toUpperCase (trim seatId)) (selectedSeats s)"
    and b: "seatSyncError (handleSeatToggle seatId s) = []"
    unfolding eq by simp_all
  have c: "toUpperCase (trim seatId) \<notin> set (selectedSeats (handleSeatToggle seatId s))"
    unfolding a by simp
  have d: "widgetClick (seatMapProps s) showDialog
                     (ClickSeat \<lparr>seat_id = seatId, seat_status = status\<rparr>)
                   = (showDialog, Some (SeatToggle (toUpperCase seatId)))"
    and e: "handleSeatToggle (toUpperCase seatId) s = handleSeatToggle seatId s"
    if t: "trim seatId = seatId" for status showDialog
  proof -
    have "toUpperCase seatId \<in> set (selectedSeats s)"
      using assms(4) t by simp
    then have "toUpperCase (toUpperCase seatId) \<in> toUpperCase ` set (selectedSeats s)"
      by (rule imageI)
    then have sel: "toUpperCase seatId \<in> set (selectedSeatIds (seatMapProps s))"
      by (simp add: selectedSeatIds_def seatMapProps_def set_arrayFromSet toUpperCase_idem)
    have sync: "\<not> p_isSyncing (seatMapProps s)" "p_onSeatToggle (seatMapProps s)"
      using assms(2) by (simp_all add: seatMapProps_def)
    show "widgetClick (seatMapProps s) showDialog
                     (ClickSeat \<lparr>seat_id = seatId, seat_status = status\<rparr>)
                   = (showDialog, Some (SeatToggle (toUpperCase seatId)))"
      using sel sync by (simp add: seatButtonDisabled_def handleSeatClick_def Let_def)
    have n: "toUpperCase (trim (toUpperCase seatId)) = toUpperCase (trim seatId)"
      by (simp add: trim_toUpperCase toUpperCase_idem)
    have ne': "toUpperCase seatId \<noteq> []"
      using assms(3) t by simp
    have "handleSeatToggle (toUpperCase seatId) s
        = s\<lparr>seatSyncError := [],
             selectedSeats :=
               filter (\<lambda>seat. seat \<noteq> toUpperCase (trim (toUpperCase seatId))) (selectedSeats s)\<rparr>"
      using assms(1,2,3,4) ne' unfolding n [symmetric] by (intro handleSeatToggle_remove)
    then show "handleSeatToggle (toUpperCase seatId) s = handleSeatToggle seatId s"
      unfolding eq n .
  qed
  show ?thesis
  proof (intro conjI impI allI)
    show "selectedSeats (handleSeatToggle seatId s)
           = filter (\<lambda>seat. seat \<noteq> toUpperCase (trim seatId)) (selectedSeats s)" by (rule a)
    show "toUpperCase (trim seatId) \<notin> set (selectedSeats (handleSeatToggle seatId s))" by (rule c)
    show "seatSyncError (handleSeatToggle seatId s) = []" by (rule b)
    show "widgetClick (seatMapProps s) showDialog
                     (ClickSeat \<lparr>seat_id = seatId, seat_status = status\<rparr>)
                   = (showDialog, Some (SeatToggle (toUpperCase seatId)))"
      if "trim seatId = seatId" for status showDialog using that by (rule d)
    show "handleSeatToggle (toUpperCase seatId) s = handleSeatToggle seatId s"
      if "trim seatId = seatId" using that by (rule e)
  qed
qed

theorem toggleSeat_removes_selected_witness:
  "reservation (examplePage 1 [''3A''] [''3A'']) = Some (exampleReservation 1 [''3A''])
   \<and> \<not> isSyncingSeats (examplePage 1 [''3A''] [''3A''])
   \<and> toUpperCase (trim ''3a'') \<noteq> []
   \<and> toUpperCase (trim ''3a'') \<in> set (selectedSeats (examplePage 1 [''3A''] [''3A'']))
   \<and> trim ''3a'' = ''3a''
   \<and> selectedSeats (handleSeatToggle ''3a'' (examplePage 1 [''3A''] [''3A''])) = []
   \<and> seatSyncError (handleSeatToggle ''3a'' (examplePage 1 [''3A''] [''3A''])) = []
   \<and> widgetClick (seatMapProps (examplePage 1 [''3A''] [''3A''])) False
         (ClickSeat \<lparr>seat_id = ''3a'', seat_status = ''booked''\<rparr>)
        = (False, Some (SeatToggle ''3A''))"
proof -
  let ?s = "examplePage 1 [''3A''] [''3A'']"
  have h1: "reservation ?s = Some (exampleReservation 1 [''3A''])"
    by (simp add: examplePage_def)
  have h2: "\<not> isSyncingSeats ?s"
    by (simp add: examplePage_def)
  have h3: "toUpperCase (trim ''3a'') \<noteq> []" by code_simp
  have h4: "toUpperCase (trim ''3a'') \<in> set (selectedSeats ?s)" by code_simp
  have h5: "trim ''3a'' = ''3a''" by code_simp
  have f: "filter (\<lambda>seat. seat \<noteq> toUpperCase (trim ''3a'')) (selectedSeats ?s) = []"
    by code_simp
  have u: "toUpperCase ''3a'' = ''3A''" by code_simp
  from toggleSeat_removes_selected [OF h1 h2 h3 h4] h5
  have "selectedSeats (handleSeatToggle ''3a'' ?s)
           = filter (\<lambda>seat. seat \<noteq> toUpperCase (trim ''3a'')) (selectedSeats ?s)"
    and "seatSyncError (handleSeatToggle ''3a'' ?s) = []"
    and "widgetClick (seatMapProps ?s) False
           (ClickSeat \<lparr>seat_id = ''3a'', seat_status = ''booked''\<rparr>)
          = (False, Some (SeatToggle (toUpperCase ''3a'')))"
    by blast+
  then show ?thesis
    using h1 h2 h3 h4 h5 f u by simp
qed


section \<open>Confirming a selection\<close>

text \<open>
  C2, as the code has it. When a confirmation has called the gateway and the call
  rejects, the selection is set to the seats the reservation held as confirmed when the
  confirmation began (\<open>seatSelection.selectedSeats\<close>, else \<open>selectedSeats\<close>, else the
  empty list), the error message is the failure's message, or the generic
  could-not-save message when the failure has none, and the sync flag is cleared. The
  message is non-empty unless the failure carries the empty string as its message.
\<close>

theorem confirm_failure_restores_server_seats:
  assumes "handleSeatConfirm_begin seatIds s = (s1, Some pc)"
    and "reservation s = Some r"
    and "confirmGatewayCall pc outcome = Inl e"
  shows "selectedSeats (handleSeatConfirm seatIds outcome s)
           = (case reservationSeats r of Some xs \<Rightarrow> xs | None \<Rightarrow> [])
         \<and> seatSyncError (handleSeatConfirm seatIds outcome s)
           = (case err_message e of
                Some m \<Rightarrow> m
              | None \<Rightarrow> ''We could not save your seat selection. Please try again.'')
         \<and> (err_message e \<noteq> Some [] \<longrightarrow> seatSyncError (handleSeatConfirm seatIds outcome s) \<noteq> [])
         \<and> \<not> isSyncingSeats (handleSeatConfirm seatIds outcome s)
         \<and> reservation (handleSeatConfirm seatIds outcome s) = Some r"
proof -
  from assms(1) obtain r' where r': "reservation s = Some r'"
    and s1: "s1 = s\<lparr>isSyncingSeats := True, seatSyncError := []\<rparr>"
    and pc: "pc = \<lparr>pc_reservationId = reservationId s,
                   trimmedSeats = confirmTrimmed seatIds s r',
                   previousServerSeats =
                     (case reservationSeats r' of Some xs \<Rightarrow> xs | None \<Rightarrow> [])\<rparr>"
    by (rule handleSeatConfirm_begin_Some)
  have rr: "r' = r" using r' assms(2) by simp
  have prev: "previousServerSeats pc = (case reservationSeats r of Some xs \<Rightarrow> xs | None \<Rightarrow> [])"
    unfolding pc rr by simp
  have fin: "handleSeatConfirm seatIds outcome s
      = s1\<lparr>seatSyncError :=
              (case err_message e of
                 Some m \<Rightarrow> m
               | None \<Rightarrow> ''We could not save your seat selection. Please try again.''),
            selectedSeats := previousServerSeats pc,
            isSyncingSeats := False\<rparr>"
    by (simp add: handleSeatConfirm_def assms(1,3) handleSeatConfirm_settle_def)
  show ?thesis
    unfolding fin prev using assms(2) by (auto simp add: s1 split: option.splits)
qed

text \<open>
  The selection before the call is not what is restored: with \<open>1A\<close> toggled on and
  nothing confirmed on the server, a rejected confirmation leaves the selection empty.
  The response \<open>{ok: false, message: ""}\<close> moreover leaves the error message empty.
\<close>

theorem confirm_failure_rollback_counterexample:
  "confirmSelectionSubmits None (examplePage 1 [] [''1A'']) = Some [''1A'']
   \<and> isl (updateReservationSeatSelection ''R1'' (Some [Some ''1A''])
            (Response (Some (exampleEnvelope False (Some []) []))))
   \<and> selectedSeats (examplePage 1 [] [''1A'']) = [''1A'']
   \<and> selectedSeats
        (handleSeatConfirm None (Response (Some (exampleEnvelope False (Some []) [])))
           (examplePage 1 [] [''1A''])) = []
   \<and> seatSyncError
        (handleSeatConfirm None (Response (Some (exampleEnvelope False (Some []) [])))
           (examplePage 1 [] [''1A''])) = []"
  by code_simp

theorem confirm_failure_restores_server_seats_witness:
  "handleSeatConfirm_begin None (examplePage 2 [''5A''] [''5A'', ''6B''])
     = ((examplePage 2 [''5A''] [''5A'', ''6B''])\<lparr>isSyncingSeats := True\<rparr>,
        Some \<lparr>pc_reservationId = ''R1'', trimmedSeats = [''5A'', ''6B''],
              previousServerSeats = [''5A'']\<rparr>)
   \<and> reservation (examplePage 2 [''5A''] [''5A'', ''6B'']) = Some (exampleReservation 2 [''5A''])
   \<and> confirmGatewayCall
         \<lparr>pc_reservationId = ''R1'', trimmedSeats = [''5A'', ''6B''],
          previousServerSeats = [''5A'']\<rparr>
         (ErrorResponse 409 (Some \<lparr>detail_message = Some ''Seat 6B is taken.'',
                                   detail_code = None\<rparr>))
       = Inl \<lparr>err_message = Some ''Seat 6B is taken.'',
              err_code = Some ''SEAT_SELECTION_UPDATE_FAILED'', err_status = Some 409\<rparr>
   \<and> selectedSeats
        (handleSeatConfirm None
           (ErrorResponse 409 (Some \<lparr>detail_message = Some ''Seat 6B is taken.'',
                                     detail_code = None\<rparr>))
           (examplePage 2 [''5A''] [''5A'', ''6B''])) = [''5A'']
   \<and> seatSyncError
        (handleSeatConfirm None
           (ErrorResponse 409 (Some \<lparr>detail_message = Some ''Seat 6B is taken.'',
                                     detail_code = None\<rparr>))
           (examplePage 2 [''5A''] [''5A'', ''6B''])) = ''Seat 6B is taken.''"
proof -
  let ?s = "examplePage 2 [''5A''] [''5A'', ''6B'']"
  let ?pc = "\<lparr>pc_reservationId = ''R1'', trimmedSeats = [''5A'', ''6B''],
              previousServerSeats = [''5A'']\<rparr>"
  let ?out = "ErrorResponse 409 (Some \<lparr>detail_message = Some ''Seat 6B is taken.'',
                                   detail_code = None\<rparr>)"
  let ?e = "\<lparr>err_message = Some ''Seat 6B is taken.'',
              err_code = Some ''SEAT_SELECTION_UPDATE_FAILED'', err_status = Some 409\<rparr>"
  have h1: "handleSeatConfirm_begin None ?s = (?s\<lparr>isSyncingSeats := True\<rparr>, Some ?pc)"
    by code_simp
  have h2: "reservation ?s = Some (exampleReservation 2 [''5A''])"
    by (simp add: examplePage_def)
  have h3: "confirmGatewayCall ?pc ?out = Inl ?e"
    by code_simp
  have v: "(case reservationSeats (exampleReservation 2 [''5A'']) of
              Some xs \<Rightarrow> xs | None \<Rightarrow> []) = [''5A'']"
    by code_simp
  from confirm_failure_restores_server_seats [OF h1 h2 h3]
  have "selectedSeats (handleSeatConfirm None ?out ?s)
           = (case reservationSeats (exampleReservation 2 [''5A'']) of
                Some xs \<Rightarrow> xs | None \<Rightarrow> [])"
    and "seatSyncError (handleSeatConfirm None ?out ?s)
           = (case err_message ?e of
                Some m \<Rightarrow> m
              | None \<Rightarrow> ''We could not save your seat selection. Please try again.'')"
    by blast+
  then show ?thesis
    using h1 h2 h3 v by simp
qed

text \<open>
  C3. When a confirmation has called the gateway and the call succeeds, the selection is
  the seat list of the returned payload, normalized (its \<open>seat_selection\<close> list in
  snake or camel case, else the reservation's seat assignments), whatever was
  submitted. The reservation is the normalized returned reservation, the seat map is
  the payload's \<open>seat_map\<close>, else its \<open>seatMap\<close>, and the last-updated time stamp is
  the payload's \<open>seat_selection.updated_at\<close>, else \<open>seat_selection.updatedAt\<close>, else the
  reservation's \<open>seat_assignments_updated_at\<close>, else empty. The seat dialog is closed,
  the error message is cleared and the sync flag is cleared.
\<close>

theorem confirm_success_adopts_server_state:
  assumes "handleSeatConfirm_begin seatIds s = (s1, Some pc)"
    and "confirmGatewayCall pc outcome = Inr (updated, env)"
    and "c = (case env_data env of Some d \<Rightarrow> d | None \<Rightarrow> env_top env)"
  shows "selectedSeats (handleSeatConfirm seatIds outcome s) = normalizeSeatList (payloadSeats env)
         \<and> updated = normalizeReservationPayload env
         \<and> reservation (handleSeatConfirm seatIds outcome s) = Some updated
         \<and> seatMap (handleSeatConfirm seatIds outcome s) = res_seatMap updated
         \<and> seatSelectionUpdatedAt (handleSeatConfirm seatIds outcome s)
             = reservationUpdatedAt updated
         \<and> seatSyncError (handleSeatConfirm seatIds outcome s) = []
         \<and> \<not> isSeatModalOpen (handleSeatConfirm seatIds outcome s)
         \<and> \<not> isSyncingSeats (handleSeatConfirm seatIds outcome s)
         \<and> outcome = Response (Some env)
         \<and> selectedSeats (handleSeatConfirm seatIds outcome s)
             = normalizeSeatList
                 (case Option.bind (c_seat_selection c) selected_seats of
                    Some a \<Rightarrow> a
                  | None \<Rightarrow>
                      (case Option.bind (c_seat_selection c) raw_selectedSeats of
                         Some a \<Rightarrow> a
                       | None \<Rightarrow>
                           (case Option.bind (c_reservation c) seat_assignments of
                              Some b \<Rightarrow> b
                            | None \<Rightarrow> [])))
         \<and> seatMap (handleSeatConfirm seatIds outcome s)
             = (case seat_map c of Some m \<Rightarrow> Some m | None \<Rightarrow> c_seatMap c)
         \<and> seatSelectionUpdatedAt (handleSeatConfirm seatIds outcome s)
             = (case Option.bind (c_seat_selection c) updated_at of
                  Some t \<Rightarrow> t
                | None \<Rightarrow>
                    (case Option.bind (c_seat_selection c) raw_updatedAt of
                       Some t \<Rightarrow> t
                     | None \<Rightarrow>
                         (case Option.bind (c_reservation c) seat_assignments_updated_at of
                            Some t \<Rightarrow> t
                          | None \<Rightarrow> [])))
         \<and> res_reservationId updated = Option.bind (c_reservation c) reservation_id
         \<and> passengerCount updated = Option.bind (c_reservation c) passenger_count"
proof -
  have g: "updated = normalizeReservationPayload env \<and> ok env \<and> outcome = Response (Some env)"
    using assms(2) unfolding confirmGatewayCall_def by (rule gateway_result_normalized)
  then have u: "updated = normalizeReservationPayload env"
    and o: "outcome = Response (Some env)"
    by simp_all
  have seats: "reservationSeats updated = Some (normalizeSeatList (payloadSeats env))"
    unfolding u by (rule reservationSeats_normalize)
  have fin: "handleSeatConfirm seatIds outcome s
      = s1\<lparr>reservation := Some updated,
            seatMap := res_seatMap updated,
            selectedSeats := normalizeSeatList (payloadSeats env),
            seatSelectionUpdatedAt := reservationUpdatedAt updated,
            seatSyncError := [],
            isSeatModalOpen := False,
            isSyncingSeats := False\<rparr>"
    by (simp add: handleSeatConfirm_def assms(1,2) handleSeatConfirm_settle_def seats)
  have raw: "payloadSeats env
       = (case Option.bind (c_seat_selection c) selected_seats of
            Some a \<Rightarrow> a
          | None \<Rightarrow>
              (case Option.bind (c_seat_selection c) raw_selectedSeats of
                 Some a \<Rightarrow> a
               | None \<Rightarrow>
                   (case Option.bind (c_reservation c) seat_assignments of
                      Some b \<Rightarrow> b
                    | None \<Rightarrow> [])))"
    using assms(3) by (rule payloadSeats_raw)
  have p1: "selectedSeats (handleSeatConfirm seatIds outcome s)
              = normalizeSeatList (payloadSeats env)"
    and p3: "reservation (handleSeatConfirm seatIds outcome s) = Some updated"
    and p4: "seatMap (handleSeatConfirm seatIds outcome s) = res_seatMap updated"
    and p5: "seatSelectionUpdatedAt (handleSeatConfirm seatIds outcome s)
               = reservationUpdatedAt updated"
    and p6: "seatSyncError (handleSeatConfirm seatIds outcome s) = []"
    and p7: "\<not> isSeatModalOpen (handleSeatConfirm seatIds outcome s)"
    and p8: "\<not> isSyncingSeats (handleSeatConfirm seatIds outcome s)"
    unfolding fin by simp_all
  have q1: "selectedSeats (handleSeatConfirm seatIds outcome s)
             = normalizeSeatList
                 (case Option.bind (c_seat_selection c) selected_seats of
                    Some a \<Rightarrow> a
                  | None \<Rightarrow>
                      (case Option.bind (c_seat_selection c) raw_selectedSeats of
                         Some a \<Rightarrow> a
                       | None \<Rightarrow>
                           (case Option.bind (c_reservation c) seat_assignments of
                              Some b \<Rightarrow> b
                            | None \<Rightarrow> [])))"
    unfolding p1 raw ..
  have q2: "seatMap (handleSeatConfirm seatIds outcome s)
             = (case seat_map c of Some m \<Rightarrow> Some m | None \<Rightarrow> c_seatMap c)"
    unfolding p4 u using assms(3) by (rule normalized_seatMap_raw)
  have q3: "seatSelectionUpdatedAt (handleSeatConfirm seatIds outcome s)
             = (case Option.bind (c_seat_selection c) updated_at of
                  Some t \<Rightarrow> t
                | None \<Rightarrow>
                    (case Option.bind (c_seat_selection c) raw_updatedAt of
                       Some t \<Rightarrow> t
                     | None \<Rightarrow>
                         (case Option.bind (c_reservation c) seat_assignments_updated_at of
                            Some t \<Rightarrow> t
                          | None \<Rightarrow> [])))"
    unfolding p5 u using assms(3) by (rule normalized_updatedAt_raw)
  have q4: "res_reservationId updated = Option.bind (c_reservation c) reservation_id"
    and q5: "passengerCount updated = Option.bind (c_reservation c) passenger_count"
    unfolding u using assms(3) by (rule normalized_fields_raw)+
  from p1 u p3 p4 p5 p6 p7 p8 o q1 q2 q3 q4 q5 show ?thesis
    by (intro conjI)
qed

theorem confirm_success_adopts_server_state_witness:
  "handleSeatConfirm_begin (Some [''4a'']) (examplePage 1 [] [''1A''])
     = ((examplePage 1 [] [''1A''])\<lparr>isSyncingSeats := True\<rparr>,
        Some \<lparr>pc_reservationId = ''R1'', trimmedSeats = [''4a''], previousServerSeats = []\<rparr>)
   \<and> confirmGatewayCall
         \<lparr>pc_reservationId = ''R1'', trimmedSeats = [''4a''], previousServerSeats = []\<rparr>
         (Response (Some snakeReply))
       = Inr (normalizeReservationPayload snakeReply, snakeReply)
   \<and> confirmSelectionSubmits (Some [''4a'']) (examplePage 1 [] [''1A'']) = Some [''4A'']
   \<and> seatMap (examplePage 1 [] [''1A'']) = None
   \<and> seatSelectionUpdatedAt (examplePage 1 [] [''1A'']) = []
   \<and> isSeatModalOpen (examplePage 1 [] [''1A''])
   \<and> selectedSeats
        (handleSeatConfirm (Some [''4a'']) (Response (Some snakeReply))
           (examplePage 1 [] [''1A''])) = [''7C'', ''8D'']
   \<and> seatMap
        (handleSeatConfirm (Some [''4a'']) (Response (Some snakeReply))
           (examplePage 1 [] [''1A''])) = Some (cabin 10)
   \<and> seatSelectionUpdatedAt
        (handleSeatConfirm (Some [''4a'']) (Response (Some snakeReply))
           (examplePage 1 [] [''1A''])) = ''2024-05-01T10:00:00Z''
   \<and> reservation
        (handleSeatConfirm (Some [''4a'']) (Response (Some snakeReply))
           (examplePage 1 [] [''1A'']))
       = Some \<lparr>res_reservationId = Some ''R1'', passengerCount = Some 2,
               passengers = Some [''Ada'', ''Bob''], res_seatMap = Some (cabin 10),
               seatSelection =
                 Some \<lparr>ss_selectedSeats = Some [''7C'', ''8D''],
                       ss_updatedAt = Some ''2024-05-01T10:00:00Z''\<rparr>,
               res_selectedSeats = Some [''7C'', ''8D'']\<rparr>
   \<and> seatSyncError
        (handleSeatConfirm (Some [''4a'']) (Response (Some snakeReply))
           (examplePage 1 [] [''1A''])) = []
   \<and> \<not> isSeatModalOpen
        (handleSeatConfirm (Some [''4a'']) (Response (Some snakeReply))
           (examplePage 1 [] [''1A'']))
   \<and> \<not> isSyncingSeats
        (handleSeatConfirm (Some [''4a'']) (Response (Some snakeReply))
           (examplePage 1 [] [''1A'']))
   \<and> selectedSeats
        (handleSeatConfirm (Some [''4a'']) (Response (Some camelReply))
           (examplePage 1 [] [''1A''])) = [''4D'']
   \<and> seatMap
        (handleSeatConfirm (Some [''4a'']) (Response (Some camelReply))
           (examplePage 1 [] [''1A''])) = None
   \<and> seatSelectionUpdatedAt
        (handleSeatConfirm (Some [''4a'']) (Response (Some camelReply))
           (examplePage 1 [] [''1A''])) = ''2022-02-02T09:00:00Z''
   \<and> selectedSeats
        (handleSeatConfirm (Some [''4a'']) (Response (Some assignmentsReply))
           (examplePage 1 [] [''1A''])) = [''9C'', ''10A'']
   \<and> seatMap
        (handleSeatConfirm (Some [''4a'']) (Response (Some assignmentsReply))
           (examplePage 1 [] [''1A''])) = Some (cabin 5)
   \<and> seatSelectionUpdatedAt
        (handleSeatConfirm (Some [''4a'']) (Response (Some assignmentsReply))
           (examplePage 1 [] [''1A''])) = ''2023-03-03T08:00:00Z''"
proof -
  let ?s = "examplePage 1 [] [''1A'']"
  let ?pc = "\<lparr>pc_reservationId = ''R1'', trimmedSeats = [''4a''], previousServerSeats = []\<rparr>"
  let ?c = "case env_data snakeReply of Some d \<Rightarrow> d | None \<Rightarrow> env_top snakeReply"
  let ?fin = "handleSeatConfirm (Some [''4a'']) (Response (Some snakeReply)) ?s"
  have h1: "handleSeatConfirm_begin (Some [''4a'']) ?s = (?s\<lparr>isSyncingSeats := True\<rparr>, Some ?pc)"
    by code_simp
  have h2: "confirmGatewayCall ?pc (Response (Some snakeReply))
              = Inr (normalizeReservationPayload snakeReply, snakeReply)"
    by code_simp
  have w: "confirmSelectionSubmits (Some [''4a'']) ?s = Some [''4A'']"
    by code_simp
  have b: "seatMap ?s = None" "seatSelectionUpdatedAt ?s = []" "isSeatModalOpen ?s"
    by (simp_all add: examplePage_def)
  have v1: "normalizeSeatList
              (case Option.bind (c_seat_selection ?c) selected_seats of
                 Some a \<Rightarrow> a
               | None \<Rightarrow>
                   (case Option.bind (c_seat_selection ?c) raw_selectedSeats of
                      Some a \<Rightarrow> a
                    | None \<Rightarrow>
                        (case Option.bind (c_reservation ?c) seat_assignments of
                           Some b \<Rightarrow> b
                         | None \<Rightarrow> [])))
            = [''7C'', ''8D'']"
    by code_simp
  have v2: "(case seat_map ?c of Some m \<Rightarrow> Some m | None \<Rightarrow> c_seatMap ?c) = Some (cabin 10)"
    by code_simp
  have v3: "(case Option.bind (c_seat_selection ?c) updated_at of
               Some t \<Rightarrow> t
             | None \<Rightarrow>
                 (case Option.bind (c_seat_selection ?c) raw_updatedAt of
                    Some t \<Rightarrow> t
                  | None \<Rightarrow>
                      (case Option.bind (c_reservation ?c) seat_assignments_updated_at of
                         Some t \<Rightarrow> t
                       | None \<Rightarrow> [])))
            = ''2024-05-01T10:00:00Z''"
    by code_simp
  have v4: "normalizeReservationPayload snakeReply
       = \<lparr>res_reservationId = Some ''R1'', passengerCount = Some 2,
               passengers = Some [''Ada'', ''Bob''], res_seatMap = Some (cabin 10),
               seatSelection =
                 Some \<lparr>ss_selectedSeats = Some [''7C'', ''8D''],
                       ss_updatedAt = Some ''2024-05-01T10:00:00Z''\<rparr>,
               res_selectedSeats = Some [''7C'', ''8D'']\<rparr>"
    by code_simp
  have camel: "selectedSeats
        (handleSeatConfirm (Some [''4a'']) (Response (Some camelReply)) ?s) = [''4D'']"
    "seatMap (handleSeatConfirm (Some [''4a'']) (Response (Some camelReply)) ?s) = None"
    "seatSelectionUpdatedAt
        (handleSeatConfirm (Some [''4a'']) (Response (Some camelReply)) ?s)
       = ''2022-02-02T09:00:00Z''"
    by code_simp+
  have assigned: "selectedSeats
        (handleSeatConfirm (Some [''4a'']) (Response (Some assignmentsReply)) ?s)
       = [''9C'', ''10A'']"
    "seatMap (handleSeatConfirm (Some [''4a'']) (Response (Some assignmentsReply)) ?s)
       = Some (cabin 5)"
    "seatSelectionUpdatedAt
        (handleSeatConfirm (Some [''4a'']) (Response (Some assignmentsReply)) ?s)
       = ''2023-03-03T08:00:00Z''"
    by code_simp+
  from confirm_success_adopts_server_state [OF h1 h2 refl]
  have "selectedSeats ?fin
          = normalizeSeatList
              (case Option.bind (c_seat_selection ?c) selected_seats of
                 Some a \<Rightarrow> a
               | None \<Rightarrow>
                   (case Option.bind (c_seat_selection ?c) raw_selectedSeats of
                      Some a \<Rightarrow> a
                    | None \<Rightarrow>
                        (case Option.bind (c_reservation ?c) seat_assignments of
                           Some b \<Rightarrow> b
                         | None \<Rightarrow> [])))"
    and "seatMap ?fin = (case seat_map ?c of Some m \<Rightarrow> Some m | None \<Rightarrow> c_seatMap ?c)"
    and "seatSelectionUpdatedAt ?fin
          = (case Option.bind (c_seat_selection ?c) updated_at of
               Some t \<Rightarrow> t
             | None \<Rightarrow>
                 (case Option.bind (c_seat_selection ?c) raw_updatedAt of
                    Some t \<Rightarrow> t
                  | None \<Rightarrow>
                      (case Option.bind (c_reservation ?c) seat_assignments_updated_at of
                         Some t \<Rightarrow> t
                       | None \<Rightarrow> [])))"
    and "reservation ?fin = Some (normalizeReservationPayload snakeReply)"
    and "seatSyncError ?fin = []"
    and "\<not> isSeatModalOpen ?fin"
    and "\<not> isSyncingSeats ?fin"
    by blast+
  then have "selectedSeats ?fin = [''7C'', ''8D'']"
    and "seatMap ?fin = Some (cabin 10)"
    and "seatSelectionUpdatedAt ?fin = ''2024-05-01T10:00:00Z''"
    and "reservation ?fin
       = Some \<lparr>res_reservationId = Some ''R1'', passengerCount = Some 2,
               passengers = Some [''Ada'', ''Bob''], res_seatMap = Some (cabin 10),
               seatSelection =
                 Some \<lparr>ss_selectedSeats = Some [''7C'', ''8D''],
                       ss_updatedAt = Some ''2024-05-01T10:00:00Z''\<rparr>,
               res_selectedSeats = Some [''7C'', ''8D'']\<rparr>"
    and "seatSyncError ?fin = []"
    and "\<not> isSeatModalOpen ?fin"
    and "\<not> isSyncingSeats ?fin"
    unfolding v1 v2 v3 v4 by simp_all
  then show ?thesis
    using h1 h2 w b camel assigned by (intro conjI)
qed

text \<open>
  C4, as the code has it. For an input list longer than \<open>max(1, P)\<close> the confirmation
  submits the first \<open>max(1, P)\<close> entries of the input, normalized (trimmed, uppercase)
  and then deduplicated: the list is cut before duplicates are removed, so the request
  can carry fewer than \<open>max(1, P)\<close> seats.
\<close>

theorem confirm_submits_truncated_then_normalized:
  assumes "reservation s = Some r" and "passengerCount r = Some P"
    and "reservationId s \<noteq> []" and "\<not> isSyncingSeats s"
    and "max 1 P < int (length seats)"
  shows "confirmSelectionSubmits (Some seats) s
           = Some (normalizeSeatList (map Some (take (nat (max 1 P)) seats)))"
proof -
  have m: "maxSelectable r = max 1 P"
    using assms(2) by (simp add: maxSelectable_def)
  have t: "confirmTrimmed (Some seats) s r = take (nat (max 1 P)) seats"
    using assms(5) by (simp add: confirmTrimmed_def m)
  show ?thesis
    unfolding confirmSelectionSubmits_def
      handleSeatConfirm_begin_issue [OF assms(1) assms(3) assms(4)]
    using assms(3) by (simp add: confirmSubmitted_def submittedSeats_def t)
qed

text \<open>
  The submitted list is not the first \<open>max(1, P)\<close> entries of the deduplicated,
  normalized input: for \<open>3A, 3A, 3B\<close> and two passengers the request carries \<open>3A\<close>
  alone, not \<open>3A, 3B\<close>.
\<close>

theorem confirm_submission_counterexample:
  "max 1 2 < int (length [''3A'', ''3A'', ''3B''])
   \<and> confirmSelectionSubmits (Some [''3A'', ''3A'', ''3B'']) (examplePage 2 [] []) = Some [''3A'']
   \<and> specSubmitted 2 [''3A'', ''3A'', ''3B''] = [''3A'', ''3B'']"
  by code_simp

text \<open>The scenario of the specification: \<open>3A, 3A, 3b\<close> with one passenger submits \<open>3A\<close>.\<close>

theorem confirm_submits_truncated_then_normalized_witness:
  "reservation (examplePage 1 [] []) = Some (exampleReservation 1 [])
   \<and> passengerCount (exampleReservation 1 []) = Some 1
   \<and> reservationId (examplePage 1 [] []) \<noteq> []
   \<and> \<not> isSyncingSeats (examplePage 1 [] [])
   \<and> max 1 1 < int (length [''3A'', ''3A'', ''3b''])
   \<and> confirmSelectionSubmits (Some [''3A'', ''3A'', ''3b'']) (examplePage 1 [] [])
        = Some [''3A'']"
proof -
  let ?s = "examplePage 1 [] []"
  have h1: "reservation ?s = Some (exampleReservation 1 [])"
    by (simp add: examplePage_def)
  have h2: "passengerCount (exampleReservation 1 []) = Some 1"
    by (simp add: exampleReservation_def)
  have h3: "reservationId ?s \<noteq> []"
    by (simp add: examplePage_def)
  have h4: "\<not> isSyncingSeats ?s"
    by (simp add: examplePage_def)
  have h5: "max 1 1 < int (length [''3A'', ''3A'', ''3b''])"
    by simp
  have v: "normalizeSeatList (map Some (take (nat (max 1 1)) [''3A'', ''3A'', ''3b''])) = [''3A'']"
    by code_simp
  from confirm_submits_truncated_then_normalized [OF h1 h2 h3 h4 h5]
  have "confirmSelectionSubmits (Some [''3A'', ''3A'', ''3b'']) ?s
          = Some (normalizeSeatList (map Some (take (nat (max 1 1)) [''3A'', ''3A'', ''3b''])))" .
  then show ?thesis
    using h1 h2 h3 h4 h5 v by simp
qed


section \<open>Loading a reservation\<close>

text \<open>
  C8. When the fetch of a load that has not been cancelled fails, the seat map is null,
  the selection is empty, the seat-selection time stamp is cleared, the reservation is
  discarded, and the error message is the failure's message (the page's generic
  message if it has none). For a response that is not \<open>ok\<close> the failure carries the
  response's code, \<open>RESERVATION_FETCH_FAILED\<close> by default, and the response's message,
  the gateway's generic message by default.
\<close>

theorem load_failure_clears_state:
  assumes "fetchReservationById rid outcome = Inl e"
  shows "seatMap (loadReservation_settle False (fetchReservationById rid outcome) s) = None
         \<and> selectedSeats (loadReservation_settle False (fetchReservationById rid outcome) s) = []
         \<and> seatSelectionUpdatedAt
              (loadReservation_settle False (fetchReservationById rid outcome) s) = []
         \<and> reservation (loadReservation_settle False (fetchReservationById rid outcome) s) = None
         \<and> error (loadReservation_settle False (fetchReservationById rid outcome) s)
             = (case err_message e of
                  Some m \<Rightarrow> m
                | None \<Rightarrow>
                    ''Unable to retrieve the reservation at this time. Please try again later.'')
         \<and> (rid \<noteq> [] \<and> outcome = Response (Some v) \<and> \<not> ok v \<longrightarrow>
               err_code e
                 = Some (case env_code v of Some c \<Rightarrow> c | None \<Rightarrow> ''RESERVATION_FETCH_FAILED'')
               \<and> error (loadReservation_settle False (fetchReservationById rid outcome) s)
                 = (case env_message v of
                      Some m \<Rightarrow> m
                    | None \<Rightarrow> ''Unable to load the reservation details right now.''))"
proof -
  have st: "loadReservation_settle False (fetchReservationById rid outcome) s
      = s\<lparr>error :=
              (case err_message e of
                 Some m \<Rightarrow> m
               | None \<Rightarrow>
                   ''Unable to retrieve the reservation at this time. Please try again later.''),
            reservation := None, seatMap := None, selectedSeats := [],
            seatSelectionUpdatedAt := [], loading := False\<rparr>"
    unfolding assms by (simp add: loadReservation_settle_def)
  have gw: "err_code e
              = Some (case env_code v of Some c \<Rightarrow> c | None \<Rightarrow> ''RESERVATION_FETCH_FAILED'')
            \<and> err_message e
              = Some (case env_message v of
                        Some m \<Rightarrow> m
                      | None \<Rightarrow> ''Unable to load the reservation details right now.'')"
    if "rid \<noteq> []" "outcome = Response (Some v)" "\<not> ok v"
  proof -
    have "fetchReservationById rid outcome
        = Inl \<lparr>err_message =
                 Some (case env_message v of
                         Some m \<Rightarrow> m
                       | None \<Rightarrow> ''Unable to load the reservation details right now.''),
               err_code =
                 Some (case env_code v of Some c \<Rightarrow> c | None \<Rightarrow> ''RESERVATION_FETCH_FAILED''),
               err_status = None\<rparr>"
      using that by (simp add: fetchReservationById_def rejection_def)
    with assms show ?thesis by auto
  qed
  show ?thesis
    unfolding st using gw by (auto split: option.splits)
qed

theorem load_failure_clears_state_witness:
  "fetchReservationById ''R1''
      (Response (Some (exampleEnvelope False (Some ''Reservation lookup failed.'') [])))
     = Inl \<lparr>err_message = Some ''Reservation lookup failed.'',
            err_code = Some ''RESERVATION_FETCH_FAILED'', err_status = None\<rparr>
   \<and> ''R1'' \<noteq> []
   \<and> \<not> ok (exampleEnvelope False (Some ''Reservation lookup failed.'') [])
   \<and> seatMap
        (loadReservation_settle False
           (fetchReservationById ''R1''
              (Response (Some (exampleEnvelope False (Some ''Reservation lookup failed.'') []))))
           (examplePage 2 [''5A''] [''5A'', ''6B''])) = None
   \<and> selectedSeats
        (loadReservation_settle False
           (fetchReservationById ''R1''
              (Response (Some (exampleEnvelope False (Some ''Reservation lookup failed.'') []))))
           (examplePage 2 [''5A''] [''5A'', ''6B''])) = []
   \<and> reservation
        (loadReservation_settle False
           (fetchReservationById ''R1''
              (Response (Some (exampleEnvelope False (Some ''Reservation lookup failed.'') []))))
           (examplePage 2 [''5A''] [''5A'', ''6B''])) = None
   \<and> error
        (loadReservation_settle False
           (fetchReservationById ''R1''
              (Response (Some (exampleEnvelope False (Some ''Reservation lookup failed.'') []))))
           (examplePage 2 [''5A''] [''5A'', ''6B''])) = ''Reservation lookup failed.''"
proof -
  let ?v = "exampleEnvelope False (Some ''Reservation lookup failed.'') []"
  let ?e = "\<lparr>err_message = Some ''Reservation lookup failed.'',
            err_code = Some ''RESERVATION_FETCH_FAILED'', err_status = None\<rparr>"
  let ?s = "examplePage 2 [''5A''] [''5A'', ''6B'']"
  have h1: "fetchReservationById ''R1'' (Response (Some ?v)) = Inl ?e"
    by code_simp
  have h2: "''R1'' \<noteq> []" by simp
  have h3: "\<not> ok ?v" by (simp add: exampleEnvelope_def)
  have m: "env_message ?v = Some ''Reservation lookup failed.''"
    by (simp add: exampleEnvelope_def)
  from load_failure_clears_state [OF h1, of ?s ?v] h2 h3
  have "seatMap (loadReservation_settle False (fetchReservationById ''R1'' (Response (Some ?v))) ?s)
          = None"
    and "selectedSeats
           (loadReservation_settle False (fetchReservationById ''R1'' (Response (Some ?v))) ?s) = []"
    and "reservation
           (loadReservation_settle False (fetchReservationById ''R1'' (Response (Some ?v))) ?s)
          = None"
    and "error (loadReservation_settle False (fetchReservationById ''R1'' (Response (Some ?v))) ?s)
          = (case env_message ?v of
               Some m \<Rightarrow> m
             | None \<Rightarrow> ''Unable to load the reservation details right now.'')"
    by blast+
  then show ?thesis
    using h1 h2 h3 m by simp
qed


section \<open>The widget's confirm buttons\<close>

lemma arrayFromSet_Nil_iff: "arrayFromSet xs = [] \<longleftrightarrow> xs = []"
  by (cases xs) simp_all

lemma sortedSelected_Nil_iff: "sortedSelected props = [] \<longleftrightarrow> p_selectedSeats props = []"
proof -
  have "sortedSelected props = [] \<longleftrightarrow> selectedSeatIds props = []"
    unfolding sortedSelected_def by (metis length_sort length_0_conv)
  then show ?thesis
    by (simp add: selectedSeatIds_def arrayFromSet_Nil_iff)
qed

text \<open>
  C9. A click in the widget reports a confirm intent only from the dialog's confirm
  button, with the sorted selection, which is then non-empty, and only when no sync is
  running. With an empty selection, or while a sync is running, the footer's confirm
  button and the dialog's confirm button are both disabled.
\<close>

theorem widget_confirm_never_empty:
  "(widgetClick props showDialog c = (showDialog', Some (ConfirmSelection ids)) \<longrightarrow>
      ids \<noteq> [] \<and> ids = sortedSelected props \<and> p_selectedSeats props \<noteq> []
      \<and> \<not> p_isSyncing props)
   \<and> (p_selectedSeats props' = [] \<or> p_isSyncing props' \<longrightarrow>
        footerConfirmDisabled props' \<and> dialogConfirmDisabled props')"
proof (intro conjI impI)
  assume a: "widgetClick props showDialog c = (showDialog', Some (ConfirmSelection ids))"
  have "c = ClickDialogConfirm \<and> \<not> dialogConfirmDisabled props \<and> ids = sortedSelected props"
    using a by (cases c) (auto split: if_splits)
  then have "ids = sortedSelected props" "sortedSelected props \<noteq> []" "\<not> p_isSyncing props"
    by (auto simp add: dialogConfirmDisabled_def)
  then show "ids \<noteq> []" "ids = sortedSelected props" "p_selectedSeats props \<noteq> []"
    "\<not> p_isSyncing props"
    by (simp_all add: sortedSelected_Nil_iff)
next
  assume "p_selectedSeats props' = [] \<or> p_isSyncing props'"
  then show "footerConfirmDisabled props'" and "dialogConfirmDisabled props'"
    by (auto simp add: footerConfirmDisabled_def dialogConfirmDisabled_def sortedSelected_Nil_iff)
qed

theorem widget_confirm_never_empty_witness:
  "widgetClick
      \<lparr>p_seatMap = None, p_selectedSeats = [''3b'', ''12a'', ''3B''], p_onSeatToggle = True,
       p_onConfirmSelection = True, p_isSyncing = False, p_syncError = []\<rparr>
      True ClickDialogConfirm
     = (False, Some (ConfirmSelection [''12A'', ''3B'']))
   \<and> [''12A'', ''3B''] \<noteq> ([] :: string list)
   \<and> (p_selectedSeats
         \<lparr>p_seatMap = None, p_selectedSeats = [], p_onSeatToggle = True,
          p_onConfirmSelection = True, p_isSyncing = False, p_syncError = []\<rparr> = []
        \<or> p_isSyncing
         \<lparr>p_seatMap = None, p_selectedSeats = [], p_onSeatToggle = True,
          p_onConfirmSelection = True, p_isSyncing = False, p_syncError = []\<rparr>)
   \<and> dialogConfirmDisabled
        \<lparr>p_seatMap = None, p_selectedSeats = [], p_onSeatToggle = True,
         p_onConfirmSelection = True, p_isSyncing = False, p_syncError = []\<rparr>
   \<and> footerConfirmDisabled
        \<lparr>p_seatMap = None, p_selectedSeats = [], p_onSeatToggle = True,
         p_onConfirmSelection = True, p_isSyncing = False, p_syncError = []\<rparr>
   \<and> widgetClick
        \<lparr>p_seatMap = None, p_selectedSeats = [], p_onSeatToggle = True,
         p_onConfirmSelection = True, p_isSyncing = False, p_syncError = []\<rparr>
        True ClickDialogConfirm = (True, None)"
proof -
  let ?p = "\<lparr>p_seatMap = None, p_selectedSeats = [''3b'', ''12a'', ''3B''], p_onSeatToggle = True,
       p_onConfirmSelection = True, p_isSyncing = False, p_syncError = []\<rparr>"
  let ?q = "\<lparr>p_seatMap = None, p_selectedSeats = [], p_onSeatToggle = True,
          p_onConfirmSelection = True, p_isSyncing = False, p_syncError = []\<rparr>"
  have h1: "widgetClick ?p True ClickDialogConfirm
              = (False, Some (ConfirmSelection [''12A'', ''3B'']))"
    by code_simp
  have h2: "p_selectedSeats ?q = [] \<or> p_isSyncing ?q"
    by simp
  have h3: "widgetClick ?q True ClickDialogConfirm = (True, None)"
    by code_simp
  from widget_confirm_never_empty
         [where props = ?p and showDialog = True and c = ClickDialogConfirm
            and showDialog' = False and ids = "[''12A'', ''3B'']" and props' = ?q] h1 h2
  have "[''12A'', ''3B''] \<noteq> ([] :: string list)"
    and "footerConfirmDisabled ?q" and "dialogConfirmDisabled ?q"
    by blast+
  then show ?thesis
    using h1 h2 h3 by simp
qed


section \<open>The normal form of the selection\<close>

text \<open>
  C10. The seat list of a normalized reservation has no duplicates and only non-empty,
  trimmed, uppercase entries: the normalized non-empty entries of its source. The source
  is the \<open>seat_selection\<close> list of the payload's container (\<open>data\<close> when present, else
  the payload itself), \<open>selected_seats\<close> or else \<open>selectedSeats\<close>, when that is an array,
  and the reservation's \<open>seat_assignments\<close> otherwise. A successful load, a successful
  update, and a mount on the normalized reservation as preloaded reservation set the
  selection to exactly that list; the selection after any load, after any successful
  update and after any such mount is in the normal form.
\<close>

theorem normalized_selection_normal_form:
  assumes "c = (case env_data v of Some d \<Rightarrow> d | None \<Rightarrow> env_top v)"
    and "src = (case Option.bind (c_seat_selection c) selected_seats of
              Some a \<Rightarrow> a
            | None \<Rightarrow>
                (case Option.bind (c_seat_selection c) raw_selectedSeats of
                   Some a \<Rightarrow> a
                 | None \<Rightarrow>
                     (case Option.bind (c_reservation c) seat_assignments of
                        Some b \<Rightarrow> b
                      | None \<Rightarrow> [])))"
  shows "seatNormalForm (normalizeSeatList src)
   \<and> set (normalizeSeatList src)
       = {toUpperCase (trim x) | x. Some x \<in> set src \<and> toUpperCase (trim x) \<noteq> []}
   \<and> res_selectedSeats (normalizeReservationPayload v) = Some (normalizeSeatList src)
   \<and> Option.bind (seatSelection (normalizeReservationPayload v)) ss_selectedSeats
       = Some (normalizeSeatList src)
   \<and> (rid \<noteq> [] \<and> ok v \<longrightarrow>
        selectedSeats
          (loadReservation_settle False (fetchReservationById rid (Response (Some v))) s)
          = normalizeSeatList src)
   \<and> (pc_reservationId pc \<noteq> [] \<and> ok v \<longrightarrow>
        selectedSeats
          (handleSeatConfirm_settle pc (confirmGatewayCall pc (Response (Some v))) s)
          = normalizeSeatList src)
   \<and> (Option.bind (c_reservation c) reservation_id = Some rid \<longrightarrow>
        selectedSeats (mountPage rid (Some (normalizeReservationPayload v)))
          = normalizeSeatList src
        \<and> selectedSeats (view (mount rid (Some (normalizeReservationPayload v))))
          = normalizeSeatList src)
   \<and> seatNormalForm
        (selectedSeats (loadReservation_settle False (fetchReservationById rid' outcome) s'))
   \<and> (confirmGatewayCall pc' outcome' = Inr res' \<longrightarrow>
        seatNormalForm
          (selectedSeats (handleSeatConfirm_settle pc' (confirmGatewayCall pc' outcome') s')))
   \<and> seatNormalForm (selectedSeats (mountPage rid' (Some (normalizeReservationPayload v))))"
proof -
  have src: "payloadSeats v = src"
    unfolding assms(2) using assms(1) by (rule payloadSeats_raw)
  have nf: "seatNormalForm (normalizeSeatList xs)" for xs
    by (rule seatNormalForm_normalizeSeatList)
  have e: "seatNormalForm []"
    by (simp add: seatNormalForm_def)
  have rs: "reservationSeats (normalizeReservationPayload v) = Some (normalizeSeatList src)"
    using reservationSeats_normalize [of v] unfolding src .
  have a: "seatNormalForm (normalizeSeatList src)"
    by (rule nf)
  have b: "set (normalizeSeatList src)
       = {toUpperCase (trim x) | x. Some x \<in> set src \<and> toUpperCase (trim x) \<noteq> []}"
    by (rule normalizeSeatList_set)
  have c1: "res_selectedSeats (normalizeReservationPayload v) = Some (normalizeSeatList src)"
    and c2: "Option.bind (seatSelection (normalizeReservationPayload v)) ss_selectedSeats
       = Some (normalizeSeatList src)"
    using src by (simp_all add: normalizeReservationPayload_def Let_def)
  have d: "selectedSeats
          (loadReservation_settle False (fetchReservationById rid (Response (Some v))) s)
          = normalizeSeatList src"
    if "rid \<noteq> [] \<and> ok v"
    using that by (simp add: fetchReservationById_def loadReservation_settle_def rs)
  have f: "selectedSeats
          (handleSeatConfirm_settle pc (confirmGatewayCall pc (Response (Some v))) s)
          = normalizeSeatList src"
    if "pc_reservationId pc \<noteq> [] \<and> ok v"
    using that
    by (simp add: confirmGatewayCall_def updateReservationSeatSelection_def
          handleSeatConfirm_settle_def rs)
  have g: "selectedSeats (mountPage rid (Some (normalizeReservationPayload v)))
          = normalizeSeatList src
        \<and> selectedSeats (view (mount rid (Some (normalizeReservationPayload v))))
          = normalizeSeatList src"
    if "Option.bind (c_reservation c) reservation_id = Some rid"
  proof -
    have id: "res_reservationId (normalizeReservationPayload v) = Some rid"
      using normalized_fields_raw(1) [OF assms(1)] that by simp
    have m: "selectedSeats (mountPage rid (Some (normalizeReservationPayload v)))
               = normalizeSeatList src"
      by (simp add: mountPage_def Let_def id rs)
    have pre: "preloadedReservation (mountPage rid (Some (normalizeReservationPayload v)))
                 = Some (normalizeReservationPayload v)"
      by (simp add: preloadedReservation_def mountPage_def Let_def id)
    have "selectedSeats (fst (effectBody (mountPage rid (Some (normalizeReservationPayload v)))))
            = normalizeSeatList src"
      using m by (simp add: effectBody_def Let_def pre rs)
    then have "selectedSeats (view (mount rid (Some (normalizeReservationPayload v))))
                 = normalizeSeatList src"
      by (cases "effectBody (mountPage rid (Some (normalizeReservationPayload v)))")
        (simp add: mount_def runEffect_def)
    with m show ?thesis by simp
  qed
  have h: "seatNormalForm
        (selectedSeats (loadReservation_settle False (fetchReservationById rid' outcome) s'))"
  proof (cases "fetchReservationById rid' outcome")
    case (Inl err)
    then show ?thesis by (simp add: loadReservation_settle_def e)
  next
    case (Inr res)
    obtain u w where res: "res = (u, w)" by (cases res)
    from Inr have u: "u = normalizeReservationPayload w"
      unfolding res using fetch_result_normalized by blast
    show ?thesis
      unfolding Inr res u
      by (simp add: loadReservation_settle_def reservationSeats_normalize nf)
  qed
  have i: "seatNormalForm
          (selectedSeats (handleSeatConfirm_settle pc' (confirmGatewayCall pc' outcome') s'))"
    if t: "confirmGatewayCall pc' outcome' = Inr res'"
  proof -
    obtain u w where res: "res' = (u, w)" by (cases res')
    from t have u: "u = normalizeReservationPayload w"
      unfolding res confirmGatewayCall_def using gateway_result_normalized by blast
    show ?thesis
      unfolding t res u
      by (simp add: handleSeatConfirm_settle_def reservationSeats_normalize nf)
  qed
  have j: "seatNormalForm (selectedSeats (mountPage rid' (Some (normalizeReservationPayload v))))"
    by (simp add: mountPage_def Let_def reservationSeats_normalize nf e)
  show ?thesis
  proof (intro conjI impI)
    show "seatNormalForm (normalizeSeatList src)" by (rule a)
    show "set (normalizeSeatList src)
       = {toUpperCase (trim x) | x. Some x \<in> set src \<and> toUpperCase (trim x) \<noteq> []}"
      by (rule b)
    show "res_selectedSeats (normalizeReservationPayload v) = Some (normalizeSeatList src)"
      by (rule c1)
    show "Option.bind (seatSelection (normalizeReservationPayload v)) ss_selectedSeats
       = Some (normalizeSeatList src)"
      by (rule c2)
    show "selectedSeats
          (loadReservation_settle False (fetchReservationById rid (Response (Some v))) s)
          = normalizeSeatList src"
      if "rid \<noteq> [] \<and> ok v" using that by (rule d)
    show "selectedSeats
          (handleSeatConfirm_settle pc (confirmGatewayCall pc (Response (Some v))) s)
          = normalizeSeatList src"
      if "pc_reservationId pc \<noteq> [] \<and> ok v" using that by (rule f)
    show "selectedSeats (mountPage rid (Some (normalizeReservationPayload v)))
          = normalizeSeatList src"
      if "Option.bind (c_reservation c) reservation_id = Some rid" using g [OF that] by simp
    show "selectedSeats (view (mount rid (Some (normalizeReservationPayload v))))
          = normalizeSeatList src"
      if "Option.bind (c_reservation c) reservation_id = Some rid" using g [OF that] by simp
    show "seatNormalForm
        (selectedSeats (loadReservation_settle False (fetchReservationById rid' outcome) s'))"
      by (rule h)
    show "seatNormalForm
          (selectedSeats (handleSeatConfirm_settle pc' (confirmGatewayCall pc' outcome') s'))"
      if "confirmGatewayCall pc' outcome' = Inr res'" using that by (rule i)
    show "seatNormalForm (selectedSeats (mountPage rid' (Some (normalizeReservationPayload v))))"
      by (rule j)
  qed
qed

theorem normalized_selection_normal_form_witness:
  "res_selectedSeats (normalizeReservationPayload assignmentsReply) = Some [''9C'', ''10A'']
   \<and> seatNormalForm [''9C'', ''10A'']
   \<and> set [''9C'', ''10A'']
       = {toUpperCase (trim x) | x.
            Some x \<in> set [Some ''9c'', Some '' 9C'', None, Some ''10a'']
            \<and> toUpperCase (trim x) \<noteq> []}
   \<and> ''R1'' \<noteq> [] \<and> ok assignmentsReply
   \<and> selectedSeats
        (loadReservation_settle False
           (fetchReservationById ''R1'' (Response (Some assignmentsReply)))
           (examplePage 2 [] [''1A''])) = [''9C'', ''10A'']
   \<and> selectedSeats
        (handleSeatConfirm_settle
           \<lparr>pc_reservationId = ''R1'', trimmedSeats = [''4a''], previousServerSeats = []\<rparr>
           (confirmGatewayCall
              \<lparr>pc_reservationId = ''R1'', trimmedSeats = [''4a''], previousServerSeats = []\<rparr>
              (Response (Some assignmentsReply)))
           (examplePage 2 [] [''1A''])) = [''9C'', ''10A'']
   \<and> selectedSeats (mountPage ''R1'' (Some (normalizeReservationPayload assignmentsReply)))
       = [''9C'', ''10A'']
   \<and> selectedSeats (view (mount ''R1'' (Some (normalizeReservationPayload assignmentsReply))))
       = [''9C'', ''10A'']
   \<and> confirmGatewayCall
        \<lparr>pc_reservationId = ''R1'', trimmedSeats = [''4a''], previousServerSeats = []\<rparr>
        (Response (Some camelReply))
       = Inr (normalizeReservationPayload camelReply, camelReply)
   \<and> seatNormalForm
        (selectedSeats
           (handleSeatConfirm_settle
              \<lparr>pc_reservationId = ''R1'', trimmedSeats = [''4a''], previousServerSeats = []\<rparr>
              (confirmGatewayCall
                 \<lparr>pc_reservationId = ''R1'', trimmedSeats = [''4a''], previousServerSeats = []\<rparr>
                 (Response (Some camelReply)))
              (examplePage 2 [] [''1A''])))
   \<and> res_selectedSeats (normalizeReservationPayload camelReply) = Some [''4D'']
   \<and> res_selectedSeats (normalizeReservationPayload snakeReply) = Some [''7C'', ''8D'']
   \<and> res_selectedSeats (normalizeReservationPayload (exampleEnvelope True None [Some ''2f'']))
       = Some [''2F'']"
proof -
  let ?c = "case env_data assignmentsReply of Some d \<Rightarrow> d | None \<Rightarrow> env_top assignmentsReply"
  let ?src = "(case Option.bind (c_seat_selection ?c) selected_seats of
              Some a \<Rightarrow> a
            | None \<Rightarrow>
                (case Option.bind (c_seat_selection ?c) raw_selectedSeats of
                   Some a \<Rightarrow> a
                 | None \<Rightarrow>
                     (case Option.bind (c_reservation ?c) seat_assignments of
                        Some b \<Rightarrow> b
                      | None \<Rightarrow> [])))"
  let ?pc = "\<lparr>pc_reservationId = ''R1'', trimmedSeats = [''4a''], previousServerSeats = []\<rparr>"
  let ?s = "examplePage 2 [] [''1A'']"
  have src: "?src = [Some ''9c'', Some '' 9C'', None, Some ''10a'']"
    by code_simp
  have v: "normalizeSeatList [Some ''9c'', Some '' 9C'', None, Some ''10a''] = [''9C'', ''10A'']"
    by code_simp
  have h1: "''R1'' \<noteq> [] \<and> ok assignmentsReply"
    by code_simp
  have h2: "pc_reservationId ?pc \<noteq> [] \<and> ok assignmentsReply"
    by code_simp
  have h3: "Option.bind (c_reservation ?c) reservation_id = Some ''R1''"
    by code_simp
  have h4: "confirmGatewayCall ?pc (Response (Some camelReply))
              = Inr (normalizeReservationPayload camelReply, camelReply)"
    by code_simp
  have others: "res_selectedSeats (normalizeReservationPayload camelReply) = Some [''4D'']"
    "res_selectedSeats (normalizeReservationPayload snakeReply) = Some [''7C'', ''8D'']"
    "res_selectedSeats (normalizeReservationPayload (exampleEnvelope True None [Some ''2f'']))
       = Some [''2F'']"
    by code_simp+
  note t = normalized_selection_normal_form
             [where v = assignmentsReply and rid = "''R1''" and s = ?s and pc = ?pc
                and pc' = ?pc and outcome' = "Response (Some camelReply)" and s' = ?s
                and res' = "(normalizeReservationPayload camelReply, camelReply)",
              OF refl refl]
  from t h1 h2 h3 h4
  have "seatNormalForm (normalizeSeatList ?src)"
    and "set (normalizeSeatList ?src)
       = {toUpperCase (trim x) | x. Some x \<in> set ?src \<and> toUpperCase (trim x) \<noteq> []}"
    and "res_selectedSeats (normalizeReservationPayload assignmentsReply)
           = Some (normalizeSeatList ?src)"
    and "selectedSeats
          (loadReservation_settle False
             (fetchReservationById ''R1'' (Response (Some assignmentsReply))) ?s)
          = normalizeSeatList ?src"
    and "selectedSeats
          (handleSeatConfirm_settle ?pc
             (confirmGatewayCall ?pc (Response (Some assignmentsReply))) ?s)
          = normalizeSeatList ?src"
    and "selectedSeats (mountPage ''R1'' (Some (normalizeReservationPayload assignmentsReply)))
          = normalizeSeatList ?src"
    and "selectedSeats (view (mount ''R1'' (Some (normalizeReservationPayload assignmentsReply))))
          = normalizeSeatList ?src"
    and "seatNormalForm
          (selectedSeats
             (handleSeatConfirm_settle ?pc
                (confirmGatewayCall ?pc (Response (Some camelReply))) ?s))"
    by blast+
  then have "seatNormalForm [''9C'', ''10A'']"
    and "set [''9C'', ''10A'']
       = {toUpperCase (trim x) | x.
            Some x \<in> set [Some ''9c'', Some '' 9C'', None, Some ''10a'']
            \<and> toUpperCase (trim x) \<noteq> []}"
    and "res_selectedSeats (normalizeReservationPayload assignmentsReply)
           = Some [''9C'', ''10A'']"
    and "selectedSeats
          (loadReservation_settle False
             (fetchReservationById ''R1'' (Response (Some assignmentsReply))) ?s)
          = [''9C'', ''10A'']"
    and "selectedSeats
          (handleSeatConfirm_settle ?pc
             (confirmGatewayCall ?pc (Response (Some assignmentsReply))) ?s)
          = [''9C'', ''10A'']"
    and "selectedSeats (mountPage ''R1'' (Some (normalizeReservationPayload assignmentsReply)))
          = [''9C'', ''10A'']"
    and "selectedSeats (view (mount ''R1'' (Some (normalizeReservationPayload assignmentsReply))))
          = [''9C'', ''10A'']"
    and "seatNormalForm
          (selectedSeats
             (handleSeatConfirm_settle ?pc
                (confirmGatewayCall ?pc (Response (Some camelReply))) ?s))"
    unfolding src v by simp_all
  then show ?thesis
    using h1 h4 others by (intro conjI) simp_all
qed


section \<open>Outstanding requests\<close>

lemma handleSeatToggle_from_same: "handleSeatToggle_from s seatId s = handleSeatToggle seatId s"
  by (simp add: handleSeatToggle_from_def handleSeatToggle_def)

lemma handleSeatConfirm_begin_from_same:
  "handleSeatConfirm_begin_from s seatIds s = handleSeatConfirm_begin seatIds s"
  by (simp add: handleSeatConfirm_begin_from_def handleSeatConfirm_begin_def)

lemma handleSeatToggle_isSyncingSeats [simp]:
  "isSyncingSeats (handleSeatToggle seatId s) = isSyncingSeats s"
  by (simp add: handleSeatToggle_def Let_def split: option.splits)

lemma loadReservation_settle_isSyncingSeats [simp]:
  "isSyncingSeats (loadReservation_settle c result s) = isSyncingSeats s"
  by (simp add: loadReservation_settle_def split: sum.splits prod.splits)

lemma loadReservation_settle_cancelled [simp]: "loadReservation_settle True result s = s"
  by (simp add: loadReservation_settle_def)

lemma effectBody_isSyncingSeats [simp]:
  "isSyncingSeats (fst (effectBody s)) = isSyncingSeats s"
  by (simp add: effectBody_def Let_def)

lemma handleOpenSeatModal_isSyncingSeats [simp]:
  "isSyncingSeats (handleOpenSeatModal r0 s) = isSyncingSeats s"
  by (simp add: handleOpenSeatModal_def)

lemma handleSeatConfirm_settle_isSyncingSeats [simp]:
  "\<not> isSyncingSeats (handleSeatConfirm_settle pc result s)"
  by (simp add: handleSeatConfirm_settle_def split: sum.splits prod.splits)

lemma handleSeatConfirm_begin_None:
  assumes "handleSeatConfirm_begin seatIds s = (s1, None)"
  shows "isSyncingSeats s1 = isSyncingSeats s"
proof (cases "reservation s = None \<or> reservationId s = []")
  case True
  from handleSeatConfirm_begin_missing [OF this, of seatIds] assms show ?thesis by auto
next
  case False
  then obtain r where r: "reservation s = Some r" "reservationId s \<noteq> []" by auto
  show ?thesis
  proof (cases "isSyncingSeats s")
    case True
    from handleSeatConfirm_begin_busy [OF r this, of seatIds] assms show ?thesis by simp
  next
    case False
    from handleSeatConfirm_begin_issue [OF r this, of seatIds] assms show ?thesis by simp
  qed
qed

lemma cleanupEffect_cancelled:
  assumes "list_all cancelled (butlast es)"
  shows "list_all cancelled (cleanupEffect es)"
  using assms by (simp add: cleanupEffect_def)

lemma runEffect_loads:
  assumes "loadsInvariant sys"
  shows "loadsInvariant (runEffect sys)"
proof -
  obtain s' started where e: "effectBody (view sys) = (s', started)"
    by (cases "effectBody (view sys)")
  show ?thesis
    using assms by (simp add: loadsInvariant_def runEffect_def e cleanupEffect_cancelled)
qed

lemma runEffect_fields:
  "inflight (runEffect sys) = inflight sys"
  "issued (runEffect sys) = issued sys"
  "isSyncingSeats (view (runEffect sys)) = isSyncingSeats (view sys)"
proof -
  obtain s' started where e: "effectBody (view sys) = (s', started)"
    by (cases "effectBody (view sys)")
  have sync: "isSyncingSeats s' = isSyncingSeats (view sys)"
    using effectBody_isSyncingSeats [of "view sys"] unfolding e by simp
  show "inflight (runEffect sys) = inflight sys" "issued (runEffect sys) = issued sys"
    "isSyncingSeats (view (runEffect sys)) = isSyncingSeats (view sys)"
    using sync by (simp_all add: runEffect_def e)
qed

lemma mount_loads: "loadsInvariant (mount rid loc)"
  unfolding mount_def by (rule runEffect_loads) (simp add: loadsInvariant_def)

lemma fire_loads:
  assumes "loadsInvariant sys"
  shows "loadsInvariant (fire e sys)"
proof (cases e)
  case (Toggle seatId)
  then show ?thesis using assms by (simp add: loadsInvariant_def)
next
  case (Confirm seatIds)
  then show ?thesis
    using assms by (simp add: loadsInvariant_def split: prod.splits option.splits)
next
  case (SettleConfirm outcome)
  then show ?thesis using assms by (simp add: loadsInvariant_def split: list.splits)
next
  case Retry
  have "loadsInvariant (sys\<lparr>view := (view sys)\<lparr>refreshCount := refreshCount (view sys) + 1\<rparr>\<rparr>)"
    using assms by (simp add: loadsInvariant_def)
  then show ?thesis unfolding Retry fire.simps by (rule runEffect_loads)
next
  case (Navigate rid loc sameObject)
  have a: "loadsInvariant
             (sys\<lparr>view := (view sys)\<lparr>reservationId := rid, locationReservation := loc\<rparr>\<rparr>)"
    using assms by (simp add: loadsInvariant_def)
  have b: "loadsInvariant
             (sys\<lparr>view := (view sys)\<lparr>reservationId := rid, locationReservation := loc\<rparr>,
                  rendered := (view sys)\<lparr>reservationId := rid, locationReservation := loc\<rparr>\<rparr>)"
    using assms by (simp add: loadsInvariant_def)
  show ?thesis
    unfolding Navigate fire.simps Let_def using runEffect_loads [OF a] b
    by (simp only: if_split) simp
next
  case (SettleLoad i outcome)
  show ?thesis
  proof (cases "i < length (effects sys) \<and> fetching (effects sys ! i)")
    case False
    then show ?thesis using assms by (auto simp add: SettleLoad)
  next
    case True
    let ?es = "(effects sys)[i := (effects sys ! i)\<lparr>fetching := False\<rparr>]"
    have "cancelled x" if "x \<in> set (butlast ?es)" for x
    proof -
      from that obtain k where k: "k < length (butlast ?es)" "x = butlast ?es ! k"
        by (auto simp add: in_set_conv_nth)
      then have kl: "k < length (butlast (effects sys))" by simp
      have x: "x = ?es ! k" using k by (simp add: nth_butlast)
      have c: "cancelled (effects sys ! k)"
        using assms kl by (simp add: loadsInvariant_def list_all_length nth_butlast)
      show ?thesis
      proof (cases "k = i")
        case True
        then show ?thesis using x c kl by simp
      next
        case False
        then show ?thesis using x c by simp
      qed
    qed
    then have "list_all cancelled (butlast ?es)"
      by (simp add: list_all_iff)
    then show ?thesis
      using True by (simp add: SettleLoad loadsInvariant_def Let_def)
  qed
next
  case Unmount
  have "list_all cancelled (butlast (cleanupEffect (effects sys)))"
    using assms cleanupEffect_cancelled [of "effects sys"]
    by (auto simp add: loadsInvariant_def list_all_iff dest: in_set_butlastD)
  then show ?thesis by (simp add: Unmount loadsInvariant_def)
next
  case OpenSeatModal
  then show ?thesis using assms by (simp add: loadsInvariant_def)
next
  case CloseSeatModal
  then show ?thesis using assms by (simp add: loadsInvariant_def)
next
  case Render
  then show ?thesis using assms by (simp add: loadsInvariant_def)
qed

lemma run_loads:
  assumes "loadsInvariant sys"
  shows "loadsInvariant (run evs sys)"
  using assms unfolding run_def
  by (induction evs arbitrary: sys) (simp_all add: fire_loads)

lemma trace_loads: "loadsInvariant (trace rid loc evs)"
  unfolding trace_def by (rule run_loads) (rule mount_loads)

text \<open>
  C7. In every system reached from a mount, a load that is not the latest run of the
  loading effect has its \<open>cancelled\<close> variable set, and when its fetch settles the
  component state is left as it is; after the component has unmounted this holds of
  every load. A continuation whose \<open>cancelled\<close> variable is set changes nothing.
\<close>

theorem superseded_load_is_discarded:
  "(Suc i < length (effects (trace rid loc evs)) \<longrightarrow>
      cancelled (effects (trace rid loc evs) ! i)
      \<and> view (fire (SettleLoad i outcome) (trace rid loc evs)) = view (trace rid loc evs))
   \<and> view (fire (SettleLoad j outcome') (fire Unmount (trace rid loc evs)))
       = view (trace rid loc evs)
   \<and> loadReservation_settle True result s = s"
proof (intro conjI impI)
  let ?sys = "trace rid loc evs"
  have inv: "list_all cancelled (butlast (effects ?sys))"
    using trace_loads [of rid loc evs] by (simp add: loadsInvariant_def)
  {
    assume i: "Suc i < length (effects ?sys)"
    then have "i < length (butlast (effects ?sys))" by simp
    then have "cancelled (butlast (effects ?sys) ! i)"
      using inv by (simp add: list_all_length)
    then show c: "cancelled (effects ?sys ! i)"
      using i by (simp add: nth_butlast)
    show "view (fire (SettleLoad i outcome) ?sys) = view ?sys"
      using c by (simp add: Let_def)
  }
  have all: "list_all cancelled (cleanupEffect (effects ?sys))"
    using inv by (rule cleanupEffect_cancelled)
  show "view (fire (SettleLoad j outcome') (fire Unmount ?sys)) = view ?sys"
  proof (cases "j < length (cleanupEffect (effects ?sys))")
    case True
    then have "cancelled (cleanupEffect (effects ?sys) ! j)"
      using all by (simp add: list_all_length)
    then show ?thesis by (simp add: Let_def)
  next
    case False
    then show ?thesis by simp
  qed
  show "loadReservation_settle True result s = s"
    by simp
qed

theorem superseded_load_is_discarded_witness:
  "Suc 0 < length (effects (trace ''R1'' None [Retry]))
   \<and> cancelled (effects (trace ''R1'' None [Retry]) ! 0)
   \<and> view (fire (SettleLoad 0 (Response (Some (exampleEnvelope True None [Some ''2f'']))))
              (trace ''R1'' None [Retry]))
       = view (trace ''R1'' None [Retry])
   \<and> selectedSeats (view (trace ''R1'' None [Retry])) = []
   \<and> selectedSeats
        (view (fire (SettleLoad 1 (Response (Some (exampleEnvelope True None [Some ''2f'']))))
                 (trace ''R1'' None [Retry]))) = [''2F'']"
proof -
  let ?out = "Response (Some (exampleEnvelope True None [Some ''2f'']))"
  have h: "Suc 0 < length (effects (trace ''R1'' None [Retry]))"
    by code_simp
  have a: "selectedSeats (view (trace ''R1'' None [Retry])) = []"
    by code_simp
  have b: "selectedSeats (view (fire (SettleLoad 1 ?out) (trace ''R1'' None [Retry]))) = [''2F'']"
    by code_simp
  from superseded_load_is_discarded
         [where i = 0 and rid = "''R1''" and loc = None and evs = "[Retry]" and outcome = ?out] h
  have "cancelled (effects (trace ''R1'' None [Retry]) ! 0)"
    and "view (fire (SettleLoad 0 ?out) (trace ''R1'' None [Retry]))
           = view (trace ''R1'' None [Retry])"
    by blast+
  then show ?thesis
    using h a b by simp
qed

lemma fire_sync:
  assumes "syncInvariant sys"
  shows "syncInvariant (fire Render (fire e sys))"
proof -
  have rv: "rendered sys = view sys"
    and le: "length (inflight sys) \<le> 1"
    and iff: "isSyncingSeats (view sys) \<longleftrightarrow> inflight sys \<noteq> []"
    using assms by (simp_all add: syncInvariant_def)
  have core: "length (inflight (fire e sys)) \<le> 1
      \<and> (isSyncingSeats (view (fire e sys)) \<longleftrightarrow> inflight (fire e sys) \<noteq> [])"
  proof (cases e)
    case (Toggle seatId)
    then show ?thesis
      using le iff by (simp add: rv handleSeatToggle_from_same)
  next
    case (Confirm seatIds)
    obtain s1 opc where b: "handleSeatConfirm_begin seatIds (view sys) = (s1, opc)"
      by (cases "handleSeatConfirm_begin seatIds (view sys)")
    show ?thesis
    proof (cases opc)
      case None
      from handleSeatConfirm_begin_None [OF b [unfolded None]]
      show ?thesis
        using le iff by (simp add: Confirm rv handleSeatConfirm_begin_from_same b None)
    next
      case (Some pc)
      from b [unfolded Some] obtain r where "\<not> isSyncingSeats (view sys)"
        and "s1 = (view sys)\<lparr>isSyncingSeats := True, seatSyncError := []\<rparr>"
        by (rule handleSeatConfirm_begin_Some)
      then show ?thesis
        using le iff by (simp add: Confirm rv handleSeatConfirm_begin_from_same b Some)
    qed
  next
    case (SettleConfirm outcome)
    show ?thesis
    proof (cases "inflight sys")
      case Nil
      then show ?thesis using le iff by (simp add: SettleConfirm)
    next
      case (Cons pc rest)
      then have "rest = []" using le by simp
      then show ?thesis using Cons by (simp add: SettleConfirm)
    qed
  next
    case Retry
    show ?thesis
      unfolding Retry fire.simps using le iff by (simp add: runEffect_fields)
  next
    case (Navigate rid loc sameObject)
    show ?thesis
      unfolding Navigate fire.simps Let_def using le iff
      by (cases "reservationId
             ((view sys)\<lparr>reservationId := rid, locationReservation := loc\<rparr>)
            = reservationId (view sys)
            \<and> samePreloaded sameObject (preloadedReservation (view sys))
                (preloadedReservation
                  ((view sys)\<lparr>reservationId := rid, locationReservation := loc\<rparr>))")
        (simp_all add: runEffect_fields)
  next
    case (SettleLoad i outcome)
    then show ?thesis using le iff by (simp add: Let_def)
  next
    case Unmount
    then show ?thesis using le iff by simp
  next
    case OpenSeatModal
    then show ?thesis using le iff by simp
  next
    case CloseSeatModal
    then show ?thesis using le iff by simp
  next
    case Render
    then show ?thesis using le iff by simp
  qed
  then show ?thesis
    by (simp add: syncInvariant_def)
qed

lemma run_rendering_sync:
  assumes "syncInvariant sys"
  shows "syncInvariant (run (rendering evs) sys)"
  using assms
proof (induction evs arbitrary: sys)
  case Nil
  then show ?case by (simp add: run_def rendering_def)
next
  case (Cons e evs)
  have "run (rendering (e # evs)) sys = run (rendering evs) (fire Render (fire e sys))"
    by (simp add: run_def rendering_def)
  then show ?case
    using Cons.IH [OF fire_sync [OF Cons.prems, of e]] by simp
qed

lemma mount_sync: "syncInvariant (fire Render (mount rid loc))"
proof -
  have "isSyncingSeats (view (mount rid loc)) = False"
    unfolding mount_def by (simp add: runEffect_fields mountPage_def Let_def)
  moreover have "inflight (mount rid loc) = []"
    unfolding mount_def by (simp add: runEffect_fields)
  ultimately show ?thesis
    by (simp add: syncInvariant_def)
qed

lemma trace_rendering_sync: "syncInvariant (trace rid loc (Render # rendering evs))"
proof -
  have "trace rid loc (Render # rendering evs) = run (rendering evs) (fire Render (mount rid loc))"
    by (simp add: trace_def run_def)
  then show ?thesis
    using run_rendering_sync [OF mount_sync, of evs rid loc] by simp
qed

text \<open>
  C5, as the code has it. The guard of \<open>handleSeatConfirm\<close> reads \<open>isSyncingSeats\<close> from
  the render that created the handler. When the page is rendered after every event, so
  that every call goes through the handler of the latest render, at most one
  confirmation is outstanding in every system reached from a mount; a call made while
  one is outstanding sends no request and starts no confirmation, and with a
  reservation loaded it changes nothing at all. Two calls with a render in between,
  from an idle page with a loaded reservation, send exactly one seat-update request.
\<close>

theorem single_confirmation_in_flight_between_renders:
  "length (inflight (trace rid loc (Render # rendering evs))) \<le> 1
   \<and> (inflight (trace rid loc (Render # rendering evs)) \<noteq> [] \<longrightarrow>
        issued (fire (Confirm a) (trace rid loc (Render # rendering evs)))
          = issued (trace rid loc (Render # rendering evs))
        \<and> inflight (fire (Confirm a) (trace rid loc (Render # rendering evs)))
          = inflight (trace rid loc (Render # rendering evs)))
   \<and> (inflight (trace rid loc (Render # rendering evs)) \<noteq> []
        \<and> reservation (view (trace rid loc (Render # rendering evs))) \<noteq> None
        \<and> reservationId (view (trace rid loc (Render # rendering evs))) \<noteq> [] \<longrightarrow>
        fire (Confirm a) (trace rid loc (Render # rendering evs))
          = trace rid loc (Render # rendering evs))
   \<and> (inflight (trace rid' loc' (Render # rendering evs')) = []
        \<and> reservation (view (trace rid' loc' (Render # rendering evs'))) \<noteq> None
        \<and> reservationId (view (trace rid' loc' (Render # rendering evs'))) \<noteq> [] \<longrightarrow>
        length (issued (fire (Confirm b') (fire Render (fire (Confirm a')
                  (trace rid' loc' (Render # rendering evs'))))))
          = length (issued (trace rid' loc' (Render # rendering evs'))) + 1
        \<and> length (inflight (fire (Confirm b') (fire Render (fire (Confirm a')
                  (trace rid' loc' (Render # rendering evs')))))) = 1
        \<and> fire (Confirm b') (fire Render (fire (Confirm a')
                  (trace rid' loc' (Render # rendering evs'))))
            = fire Render (fire (Confirm a') (trace rid' loc' (Render # rendering evs'))))"
proof (intro conjI impI)
  let ?sys = "trace rid loc (Render # rendering evs)"
  have inv: "syncInvariant ?sys" by (rule trace_rendering_sync)
  then have rv: "rendered ?sys = view ?sys"
    by (simp add: syncInvariant_def)
  from inv show "length (inflight ?sys) \<le> 1"
    by (simp add: syncInvariant_def)
  {
    assume "inflight ?sys \<noteq> []"
    then have sync: "isSyncingSeats (view ?sys)"
      using inv by (simp add: syncInvariant_def)
    obtain s1 opc where b: "handleSeatConfirm_begin a (view ?sys) = (s1, opc)"
      by (cases "handleSeatConfirm_begin a (view ?sys)")
    have "opc = None"
    proof (cases opc)
      case (Some pc)
      from b [unfolded Some] obtain r where "\<not> isSyncingSeats (view ?sys)"
        by (rule handleSeatConfirm_begin_Some)
      with sync show ?thesis by simp
    qed simp
    then show "issued (fire (Confirm a) ?sys) = issued ?sys"
      and "inflight (fire (Confirm a) ?sys) = inflight ?sys"
      using b by (simp_all add: rv handleSeatConfirm_begin_from_same)
  }
  {
    assume h: "inflight ?sys \<noteq> [] \<and> reservation (view ?sys) \<noteq> None
        \<and> reservationId (view ?sys) \<noteq> []"
    then have sync: "isSyncingSeats (view ?sys)"
      using inv by (simp add: syncInvariant_def)
    from h obtain r where r: "reservation (view ?sys) = Some r" "reservationId (view ?sys) \<noteq> []"
      by auto
    show "fire (Confirm a) ?sys = ?sys"
      by (simp add: rv handleSeatConfirm_begin_from_same handleSeatConfirm_begin_busy [OF r sync])
  }
next
  let ?sys = "trace rid' loc' (Render # rendering evs')"
  have inv: "syncInvariant ?sys" by (rule trace_rendering_sync)
  then have rv: "rendered ?sys = view ?sys"
    by (simp add: syncInvariant_def)
  assume h: "inflight ?sys = [] \<and> reservation (view ?sys) \<noteq> None
        \<and> reservationId (view ?sys) \<noteq> []"
  then have idle: "\<not> isSyncingSeats (view ?sys)"
    using inv by (simp add: syncInvariant_def)
  from h obtain r where r: "reservation (view ?sys) = Some r" "reservationId (view ?sys) \<noteq> []"
    by auto
  let ?s1 = "(view ?sys)\<lparr>isSyncingSeats := True, seatSyncError := []\<rparr>"
  let ?pc = "\<lparr>pc_reservationId = reservationId (view ?sys),
                   trimmedSeats = confirmTrimmed a' (view ?sys) r,
                   previousServerSeats =
                     (case reservationSeats r of Some xs \<Rightarrow> xs | None \<Rightarrow> [])\<rparr>"
  have first: "fire Render (fire (Confirm a') ?sys)
      = ?sys\<lparr>view := ?s1, rendered := ?s1, inflight := [?pc],
             issued := issued ?sys
               @ [(reservationId (view ?sys),
                   normalizeSeatList (map Some (confirmTrimmed a' (view ?sys) r)))]\<rparr>"
    using h r
    by (simp add: rv handleSeatConfirm_begin_from_same handleSeatConfirm_begin_issue [OF r idle]
          confirmSubmitted_def submittedSeats_def)
  have r1: "reservation ?s1 = Some r" "reservationId ?s1 \<noteq> []" "isSyncingSeats ?s1"
    using r by simp_all
  have second: "fire (Confirm b') (fire Render (fire (Confirm a') ?sys))
                  = fire Render (fire (Confirm a') ?sys)"
    unfolding first
    by (simp add: handleSeatConfirm_begin_from_same handleSeatConfirm_begin_busy [OF r1])
  show "length (issued (fire (Confirm b') (fire Render (fire (Confirm a') ?sys))))
          = length (issued ?sys) + 1"
    unfolding second unfolding first by simp
  show "length (inflight (fire (Confirm b') (fire Render (fire (Confirm a') ?sys)))) = 1"
    unfolding second unfolding first by simp
  show "fire (Confirm b') (fire Render (fire (Confirm a') ?sys))
          = fire Render (fire (Confirm a') ?sys)"
    by (rule second)
qed

text \<open>
  Without a render in between it is otherwise: the handler of the render made before
  the first call still reads \<open>isSyncingSeats = false\<close>, so a second call of that same
  handler, made while the first confirmation is outstanding and the flag is set in the
  current state, sends a second request.
\<close>

theorem stale_handler_confirms_twice_counterexample:
  "inflight (trace ''R1'' None
       [SettleLoad 0 (Response (Some (exampleEnvelope True None [Some ''2f'']))), Render,
        Confirm None])
     = [\<lparr>pc_reservationId = ''R1'', trimmedSeats = [''2F''], previousServerSeats = [''2F'']\<rparr>]
   \<and> isSyncingSeats (view (trace ''R1'' None
       [SettleLoad 0 (Response (Some (exampleEnvelope True None [Some ''2f'']))), Render,
        Confirm None]))
   \<and> issued (trace ''R1'' None
       [SettleLoad 0 (Response (Some (exampleEnvelope True None [Some ''2f'']))), Render,
        Confirm None, Confirm None])
     = [(''R1'', [''2F'']), (''R1'', [''2F''])]
   \<and> length (inflight (trace ''R1'' None
       [SettleLoad 0 (Response (Some (exampleEnvelope True None [Some ''2f'']))), Render,
        Confirm None, Confirm None])) = 2"
  by code_simp

theorem single_confirmation_in_flight_between_renders_witness:
  "inflight (trace ''R1'' None
       (Render # rendering
          [SettleLoad 0 (Response (Some (exampleEnvelope True None [Some ''2f'']))),
           Confirm None])) \<noteq> []
   \<and> reservation (view (trace ''R1'' None
       (Render # rendering
          [SettleLoad 0 (Response (Some (exampleEnvelope True None [Some ''2f'']))),
           Confirm None]))) \<noteq> None
   \<and> reservationId (view (trace ''R1'' None
       (Render # rendering
          [SettleLoad 0 (Response (Some (exampleEnvelope True None [Some ''2f'']))),
           Confirm None]))) \<noteq> []
   \<and> fire (Confirm (Some [''5a''])) (trace ''R1'' None
       (Render # rendering
          [SettleLoad 0 (Response (Some (exampleEnvelope True None [Some ''2f'']))),
           Confirm None]))
      = trace ''R1'' None
       (Render # rendering
          [SettleLoad 0 (Response (Some (exampleEnvelope True None [Some ''2f'']))),
           Confirm None])
   \<and> inflight (trace ''R1'' None
       (Render # rendering
          [SettleLoad 0 (Response (Some (exampleEnvelope True None [Some ''2f''])))])) = []
   \<and> reservation (view (trace ''R1'' None
       (Render # rendering
          [SettleLoad 0 (Response (Some (exampleEnvelope True None [Some ''2f''])))]))) \<noteq> None
   \<and> reservationId (view (trace ''R1'' None
       (Render # rendering
          [SettleLoad 0 (Response (Some (exampleEnvelope True None [Some ''2f''])))]))) \<noteq> []
   \<and> length (issued (fire (Confirm (Some [''5a''])) (fire Render (fire (Confirm None)
        (trace ''R1'' None
          (Render # rendering
             [SettleLoad 0 (Response (Some (exampleEnvelope True None [Some ''2f''])))]))))))
      = length (issued (trace ''R1'' None
          (Render # rendering
             [SettleLoad 0 (Response (Some (exampleEnvelope True None [Some ''2f''])))]))) + 1
   \<and> issued (fire (Confirm (Some [''5a''])) (fire Render (fire (Confirm None)
        (trace ''R1'' None
          (Render # rendering
             [SettleLoad 0 (Response (Some (exampleEnvelope True None [Some ''2f''])))])))))
      = [(''R1'', [''2F''])]"
proof -
  let ?out = "Response (Some (exampleEnvelope True None [Some ''2f'']))"
  let ?busy = "trace ''R1'' None (Render # rendering [SettleLoad 0 ?out, Confirm None])"
  let ?idle = "trace ''R1'' None (Render # rendering [SettleLoad 0 ?out])"
  have h1: "inflight ?busy \<noteq> []" by code_simp
  have h2: "reservation (view ?busy) \<noteq> None" by code_simp
  have h3: "reservationId (view ?busy) \<noteq> []" by code_simp
  have h4: "inflight ?idle = []" by code_simp
  have h5: "reservation (view ?idle) \<noteq> None" by code_simp
  have h6: "reservationId (view ?idle) \<noteq> []" by code_simp
  have v: "issued (fire (Confirm (Some [''5a''])) (fire Render (fire (Confirm None) ?idle)))
             = [(''R1'', [''2F''])]"
    by code_simp
  from single_confirmation_in_flight_between_renders
         [where rid = "''R1''" and loc = None and evs = "[SettleLoad 0 ?out, Confirm None]"
            and a = "Some [''5a'']" and rid' = "''R1''" and loc' = None
            and evs' = "[SettleLoad 0 ?out]" and a' = None and b' = "Some [''5a'']"]
       h1 h2 h3 h4 h5 h6
  have "fire (Confirm (Some [''5a''])) ?busy = ?busy"
    and "length (issued (fire (Confirm (Some [''5a''])) (fire Render (fire (Confirm None) ?idle))))
           = length (issued ?idle) + 1"
    by blast+
  then show ?thesis
    using h1 h2 h3 h4 h5 h6 v by simp
qed

end
